theory Spec2Isabelle
  imports Main
begin

section \<open>Shape descriptions: the part of go/types that getParam inspects\<close>

text \<open>
  \<^verbatim>\<open>getParam\<close> switches on the dynamic type of \<^verbatim>\<open>variable.Type()\<close> and, for a basic
  type, on its kind. The kinds are those of \<^verbatim>\<open>types.BasicKind\<close>; the type forms are the
  implementations of \<^verbatim>\<open>types.Type\<close>. A struct carries its fields (each a \<^verbatim>\<open>*types.Var\<close>) in
  declaration order, a named type the package path and name of its object (the
  predeclared \<^verbatim>\<open>error\<close> has no package).
\<close>

datatype BasicKind =
    types_Invalid
  | types_Bool
  | types_Int | types_Int8 | types_Int16 | types_Int32 | types_Int64
  | types_Uint | types_Uint8 | types_Uint16 | types_Uint32 | types_Uint64 | types_Uintptr
  | types_Float32 | types_Float64
  | types_Complex64 | types_Complex128
  | types_String
  | types_UnsafePointer

datatype types_Type =
    Basic BasicKind
  | Struct "Var list"
  | Array nat types_Type
  | Slice types_Type
  | Named string string
  | Pointer types_Type
  | MapType types_Type types_Type
  | Chan types_Type
  | Signature "types_Type list" "types_Type list"
  | Interface "string list"
and Var = NewVar string types_Type

text \<open>
  Of a \<^verbatim>\<open>*types.Var\<close> only \<^verbatim>\<open>Name()\<close> and \<^verbatim>\<open>Type()\<close> are read: they are the two arguments of
  \<open>NewVar\<close>.
\<close>

text \<open>
  \<^verbatim>\<open>Type.String()\<close> belongs to go/types, not to this package: every function below that
  calls it takes it as the parameter \<open>TypeString\<close>.
\<close>

type_synonym TypeString = "types_Type \<Rightarrow> string"

section \<open>Decimal text: strconv.Itoa\<close>

definition digit_char :: "nat \<Rightarrow> char" where
  "digit_char d = ''0123456789'' ! d"

function nat_digits :: "nat \<Rightarrow> string" where
  "nat_digits n = (if n < 10 then [digit_char n] else nat_digits (n div 10) @ [digit_char (n mod 10)])"
  by pat_completeness auto
termination
  by (relation "measure id") auto

declare nat_digits.simps [simp del]

definition Itoa :: "int \<Rightarrow> string" where
  "Itoa i = (if i < 0 then CHR ''-'' # nat_digits (nat (- i)) else nat_digits (nat i))"

section \<open>Codec nodes: the implementations of Param\<close>

text \<open>
  One constructor per struct implementing \<^verbatim>\<open>Param\<close>, with the struct's fields in the order
  of the source: \<^verbatim>\<open>boolParam{name}\<close>, \<^verbatim>\<open>intParam{bitSize, name, typ, unsigned}\<close>,
  \<^verbatim>\<open>structParam{name, typ, params}\<close>, \<^verbatim>\<open>sliceParam{name, typ, object}\<close>,
  \<^verbatim>\<open>errorParam{name, typ}\<close>, \<^verbatim>\<open>stringParam{name}\<close>.
\<close>

datatype Param =
    boolParam string
  | intParam int string string bool
  | structParam string string "Param list"
  | sliceParam string string Param
  | errorParam string string
  | stringParam string

definition newBoolParam :: "string \<Rightarrow> Param" where
  "newBoolParam name = boolParam name"

definition newIntParam :: "string \<Rightarrow> int \<Rightarrow> bool \<Rightarrow> Param" where
  "newIntParam name bitSize unsigned = intParam bitSize name [] unsigned"

definition newSliceParam :: "string \<Rightarrow> string \<Rightarrow> Param \<Rightarrow> Param" where
  "newSliceParam name typ obj = sliceParam name typ obj"

definition newErrorParam :: "string \<Rightarrow> Param" where
  "newErrorParam name = errorParam name ''error''"

definition newStringParam :: "string \<Rightarrow> Param" where
  "newStringParam name = stringParam name"

fun Name :: "Param \<Rightarrow> string" where
  "Name (boolParam name) = name"
| "Name (intParam bitSize name typ unsigned) = name"
| "Name (structParam name typ params) = name"
| "Name (sliceParam name typ object) = name"
| "Name (errorParam name typ) = name"
| "Name (stringParam name) = name"

definition intParam_Type :: "int \<Rightarrow> bool \<Rightarrow> string" where
  "intParam_Type bitSize unsigned =
     (let result = ''int'';
          result = (if unsigned then ''u'' @ result else result);
          result = (if bitSize > 0 then result @ Itoa bitSize else result)
      in result)"

fun Type :: "Param \<Rightarrow> string" where
  "Type (boolParam name) = ''bool''"
| "Type (intParam bitSize name typ unsigned) = intParam_Type bitSize unsigned"
| "Type (structParam name typ params) = typ"
| "Type (sliceParam name typ object) = ''[]'' @ typ"
| "Type (errorParam name typ) = typ"
| "Type (stringParam name) = ''string''"

definition getParseFunc :: "string" where
  "getParseFunc = ''XPathValueGetInt''"

section \<open>The shape resolver: getParam and newStructParam\<close>

text \<open>
  Modelled from the spec: \<^verbatim>\<open>Exit\<close> is not among the source files; the spec calls it a
  process-terminating diagnostic, so a call ends \<^verbatim>\<open>getParam\<close> with the format string and
  its arguments as the result, and nothing after the call runs.
\<close>

datatype fatal = Exit string "string list" | Panic string

fun basic_bitSize :: "BasicKind \<Rightarrow> int" where
  "basic_bitSize types_Int8 = 8"
| "basic_bitSize types_Int16 = 16"
| "basic_bitSize types_Int32 = 32"
| "basic_bitSize types_Int64 = 64"
| "basic_bitSize k = 0"

text \<open>
  \<^verbatim>\<open>newStructParam\<close> appends \<^verbatim>\<open>getParam(strukt.Field(i))\<close> for \<open>i = 0, 1, ...\<close>; the loop
  is \<open>newStructParam_fields\<close>, which stops at the first field whose resolution exits. The
  type assertion \<^verbatim>\<open>variable.Type().(*types.Struct)\<close> panics on any other type; \<^verbatim>\<open>getParam\<close> calls
  \<^verbatim>\<open>newStructParam\<close> for structs only.
\<close>

fun getParam :: "TypeString \<Rightarrow> Var \<Rightarrow> fatal + Param"
  and newStructParam :: "TypeString \<Rightarrow> Var \<Rightarrow> fatal + Param"
  and newStructParam_fields :: "TypeString \<Rightarrow> Var list \<Rightarrow> fatal + Param list"
where
  "getParam TypeString (NewVar name (Basic k)) =
     (if k \<in> {types_Int, types_Int8, types_Int16, types_Int32, types_Int64}
      then Inr (newIntParam name (basic_bitSize k) False)
      else if k = types_String then Inr (newStringParam name)
      else if k = types_Bool then Inr (newBoolParam name)
      else Inl (Exit ''not supported param: %v'' [TypeString (Basic k)]))"
| "getParam TypeString (NewVar name (Struct fields)) =
     newStructParam TypeString (NewVar name (Struct fields))"
| "getParam TypeString (NewVar name (Array n elem)) = Inl (Exit ''array'' [])"
| "getParam TypeString (NewVar name (Slice elem)) =
     (case getParam TypeString (NewVar name elem) of
        Inl e \<Rightarrow> Inl e
      | Inr sliceElemParam \<Rightarrow> Inr (newSliceParam name (TypeString elem) sliceElemParam))"
| "getParam TypeString (NewVar name (Named pkg obj)) =
     (if TypeString (Named pkg obj) = ''error'' then Inr (newErrorParam ''err'')
      else Inl (Exit ''No support for named parameters. use inline definitions.'' []))"
| "getParam TypeString (NewVar name t) = Inl (Exit ''not supported param: %v'' [TypeString t])"
| "newStructParam TypeString (NewVar name (Struct fields)) =
     (case newStructParam_fields TypeString fields of
        Inl e \<Rightarrow> Inl e
      | Inr params \<Rightarrow> Inr (structParam name (TypeString (Struct fields)) params))"
| "newStructParam TypeString (NewVar name t) =
     Inl (Panic ''interface conversion: types.Type is not *types.Struct'')"
| "newStructParam_fields TypeString [] = Inr []"
| "newStructParam_fields TypeString (f # fields) =
     (case getParam TypeString f of
        Inl e \<Rightarrow> Inl e
      | Inr p \<Rightarrow>
          (case newStructParam_fields TypeString fields of
             Inl e \<Rightarrow> Inl e
           | Inr params \<Rightarrow> Inr (p # params)))"

section \<open>Fresh names and template text\<close>

text \<open>
  Modelled from the spec: \<^verbatim>\<open>GenerateVariableName\<close> is not among the source files; the spec
  describes a process-wide, counter-backed generator of fresh identifier strings. It is
  taken as a parameter: a function from the prefixes it is called with (none or one) and
  the allocator's state to the name and the next state. The fragment operations thread
  the state through their calls in the order in which Go evaluates them: first the calls
  in the bindings passed to \<^verbatim>\<open>RenderTemplateInto\<close>, in source order, then the calls made while
  the template is rendered, left to right.
\<close>

type_synonym 's GenerateVariableName = "string list \<Rightarrow> 's \<Rightarrow> string \<times> 's"

text \<open>
  Modelled from the spec: \<^verbatim>\<open>RenderTemplateInto\<close> is not among the source files; the spec
  describes it as rendering a template with bindings to text, where the template may call
  the operations of a bound node and the name generator. The templates are written for
  Go's text/template: the template's text is copied, every action is replaced by its value,
  a variable declaration by nothing, and the body of \<^verbatim>\<open>range\<close> is rendered once per element.
  In the templates a line break is always followed by the tabs of the next line: \<open>nl k\<close> is
  a line break and \<open>k\<close> tabs.
\<close>

definition nl :: "nat \<Rightarrow> string" where
  "nl k = CHR 0x0A # replicate k (CHR 0x09)"

section \<open>Decode fragments: FromEtree\<close>

fun FromEtree :: "'s GenerateVariableName \<Rightarrow> Param \<Rightarrow> string \<Rightarrow> string \<Rightarrow> string \<Rightarrow> 's \<Rightarrow> string \<times> 's"
  and structParam_FromEtree_range ::
    "'s GenerateVariableName \<Rightarrow> Param list \<Rightarrow> string \<Rightarrow> string \<Rightarrow> 's \<Rightarrow> string \<times> 's"
where
  \<open>FromEtree gen (boolParam name) element resultvar errvar s =
     (nl 1 @ ''var '' @ resultvar @ '' '' @ Type (boolParam name) @
      nl 1 @ ''if '' @ resultvar @ '', '' @ errvar @ '' = xmlrpc.XPathValueGetBool('' @ element @
        '', "'' @ name @ ''"); '' @ errvar @ '' != nil {'' @
      nl 2 @ ''return'' @
      nl 1 @ ''}'' @
      nl 1, s)\<close>
| \<open>FromEtree gen (intParam bitSize name typ unsigned) element resultvar errvar s =
     (nl 1 @ ''var '' @ resultvar @ '' '' @ Type (intParam bitSize name typ unsigned) @
      nl 1 @ ''if '' @ resultvar @ '', '' @ errvar @ '' = xmlrpc.'' @ getParseFunc @ ''('' @ element @
        '', "'' @ Name (intParam bitSize name typ unsigned) @ ''"); '' @ errvar @ '' != nil {'' @
      nl 2 @ ''return'' @
      nl 1 @ ''}'', s)\<close>
| \<open>FromEtree gen (structParam name typ params) element resultvar errvar s =
     (let (temp, s) = gen [''name_elem''] s;
          (nameVar, s) = gen [''name''] s;
          (valueVar, s) = gen [''value''] s;
          (cases, s) = structParam_FromEtree_range gen params valueVar resultvar s
      in (nl 1 @ ''// rendering struct'' @
          nl 1 @ resultvar @ '' := '' @ Type (structParam name typ params) @ ''{}'' @
          nl 0 @
          nl 1 @
          nl 1 @
          nl 1 @
          nl 0 @
          nl 1 @ ''// Lets iterate over given members.'' @
          nl 1 @ ''// @TODO: we should check first "struct" if not provided it's probably error'' @
          nl 1 @ ''for _, member := range '' @ element @ ''.FindElements("struct/members") {'' @
          nl 2 @ ''var '' @ temp @ '' *etree.Element'' @
          nl 2 @ ''if '' @ temp @ '' = member.FindElement("name"); '' @ temp @ '' == nil {'' @
          nl 3 @ ''return errors.New("no name provided")'' @
          nl 2 @ ''}'' @
          nl 0 @
          nl 2 @ nameVar @ '' := '' @ temp @ ''.Text()'' @
          nl 0 @
          nl 2 @ ''var '' @ valueVar @ '' *etree.Element'' @
          nl 2 @ ''if '' @ valueVar @ '' = member.FindElement("value"); '' @ valueVar @ '' == nil {'' @
          nl 3 @ ''return errors.New("no name provided")'' @
          nl 2 @ ''}'' @
          nl 0 @
          nl 2 @ ''// switch over param names (over all params)'' @
          nl 2 @ ''switch '' @ nameVar @ '' {'' @
          nl 3 @ cases @
          nl 2 @ ''}'' @
          nl 1 @ ''}'' @
          nl 1, s))\<close>
| \<open>FromEtree gen (sliceParam name typ object) element resultvar errvar s =
     (let (memberVar, s) = gen [''member''] s;
          (targetName, s) = gen [''value''] s;
          (item, s) = FromEtree gen object memberVar targetName errvar s
      in (nl 1 @ ''// This is slice implementation of '' @ resultvar @
          nl 1 @ resultvar @ '' := []'' @ Type (sliceParam name typ object) @ ''{}'' @
          nl 0 @
          nl 1 @
          nl 0 @
          nl 1 @ ''// Lets iterate over given members.'' @
          nl 1 @ ''for _, '' @ memberVar @ '' := range '' @ element @
            ''.FindElements("array/data/value") {'' @
          nl 2 @
          nl 2 @ item @
          nl 2 @ resultvar @ '' = append('' @ resultvar @ '', '' @ targetName @ '')'' @
          nl 1 @ ''}'' @
          nl 1, s))\<close>
| \<open>FromEtree gen (errorParam name typ) element resultvar errvar s = ([], s)\<close>
| \<open>FromEtree gen (stringParam name) element resultvar errvar s =
     (nl 1 @ ''var '' @ resultvar @ '' '' @ Type (stringParam name) @
      nl 1 @ ''if '' @ resultvar @ '', '' @ errvar @ '' = xmlrpc.XPathValueGetString('' @ element @
        '', "'' @ name @ ''"); '' @ errvar @ '' != nil {'' @
      nl 2 @ ''return'' @
      nl 1 @ ''}'' @
      nl 1, s)\<close>
| \<open>structParam_FromEtree_range gen [] valueVar resultvar s = ([], s)\<close>
| \<open>structParam_FromEtree_range gen (param # params) valueVar resultvar s =
     (let (paramTmp, s) = gen [] s;
          name = Name param;
          (field, s) = FromEtree gen param valueVar paramTmp ''err'' s;
          (rest, s) = structParam_FromEtree_range gen params valueVar resultvar s
      in (nl 4 @ ''case "'' @ Name param @ ''": '' @
          nl 4 @
          nl 4 @ field @
          nl 0 @
          nl 4 @ ''// Assign to variable (for pointer support we can provide it here'' @
          nl 4 @ resultvar @ ''.'' @ name @ '' = '' @ paramTmp @ rest, s))\<close>

section \<open>Encode fragments: ToEtree\<close>

fun ToEtree :: "'s GenerateVariableName \<Rightarrow> Param \<Rightarrow> string \<Rightarrow> string \<Rightarrow> string \<Rightarrow> 's \<Rightarrow> string \<times> 's"
  and structParam_ToEtree_range ::
    "'s GenerateVariableName \<Rightarrow> Param list \<Rightarrow> string \<Rightarrow> string \<Rightarrow> string \<Rightarrow> 's \<Rightarrow> string \<times> 's"
where
  \<open>ToEtree gen (boolParam name) element resultvar errvar s =
     (let (Temp, s) = gen [''boolstr''] s
      in (nl 2 @ Temp @ '' := "0"'' @
          nl 2 @ ''if '' @ resultvar @ '' {'' @
          nl 3 @ Temp @ '' = "1"'' @
          nl 2 @ ''}'' @
          nl 2 @ element @ ''.CreateElement("boolean").SetText('' @ Temp @ '')'', s))\<close>
| \<open>ToEtree gen (intParam bitSize name typ unsigned) element resultvar errvar s =
     (element @ ''.CreateElement("int").SetText(strconv.Itoa(int('' @ resultvar @ '')))'', s)\<close>
| \<open>ToEtree gen (structParam name typ params) element resultvar errvar s =
     (let (StructVar, s) = gen [''struct''] s;
          (members, s) = structParam_ToEtree_range gen params StructVar resultvar errvar s
      in (nl 2 @ StructVar @ '' := '' @ element @ ''.CreateElement("struct")'' @
          nl 2 @ ''// iterate over struct members'' @
          nl 2 @ members @
          nl 1, s))\<close>
| \<open>ToEtree gen (sliceParam name typ object) element resultvar errvar s =
     (let (Temp, s) = gen [''array_data''] s;
          (TempItem, s) = gen [''item''] s;
          (TempValueVar, s) = gen [''value''] s;
          (item, s) = ToEtree gen object TempValueVar TempItem errvar s
      in (Temp @ '' := '' @ element @ ''.CreateElement("array").CreateElement("data")'' @
          nl 2 @ ''for _, '' @ TempItem @ '' := range '' @ resultvar @ '' {'' @
          nl 3 @ TempValueVar @ '' := '' @ Temp @ ''.CreateElement("value")'' @
          nl 3 @ item @
          nl 2 @ ''}'' @
          nl 1, s))\<close>
| \<open>ToEtree gen (errorParam name typ) element resultvar errvar s =
     (let (CastVar, s) = gen [''code''] s;
          (StructVar, s) = gen [''struct''] s;
          (OkVar, s) = gen [''ok''] s;
          (ErrorCode, s) = gen [''code''] s;
          (Fault, s) = gen [''fault''] s;
          (member1, s) = gen [''member''] s;
          (member2, s) = gen [''member''] s
      in (nl 0 @
          nl 2 @ ''// move this code to error.'' @
          nl 2 @ Fault @ '' := '' @ element @ ''.CreateElement("fault")'' @
          nl 0 @
          nl 2 @ ErrorCode @ '' := 500'' @
          nl 0 @
          nl 2 @ ''// Try to cast error to xmlrpc.Error (with code added)'' @
          nl 2 @ ''if '' @ CastVar @ '', '' @ OkVar @ '' := '' @ resultvar @ ''.(xmlrpc.Error); '' @
            OkVar @ '' {'' @
          nl 3 @ ErrorCode @ '' = '' @ CastVar @ ''.Code()'' @
          nl 2 @ ''}'' @
          nl 0 @
          nl 2 @ StructVar @ '' := '' @ Fault @ ''.CreateElement("value").CreateElement("struct")'' @
          nl 0 @
          nl 2 @
          nl 2 @ member1 @ '' := '' @ StructVar @ ''.CreateElement("member")'' @
          nl 2 @ member1 @ ''.CreateElement("name").SetText("faultCode")'' @
          nl 2 @ member1 @ ''.CreateElement("value").CreateElement("int").SetText(strconv.Itoa('' @
            ErrorCode @ ''))'' @
          nl 0 @
          nl 2 @
          nl 2 @ member2 @ '' := '' @ StructVar @ ''.CreateElement("member")'' @
          nl 2 @ member2 @ ''.CreateElement("name").SetText("faultString")'' @
          nl 2 @ member2 @ ''.CreateElement("value").CreateElement("string").SetText( '' @
            resultvar @ ''.Error())'' @
          nl 0 @
          nl 1, s))\<close>
| \<open>ToEtree gen (stringParam name) element resultvar errvar s =
     (let (Temp, s) = gen [[]] s
      in (element @ ''.CreateElement("string").SetText('' @ resultvar @ '')'', s))\<close>
| \<open>structParam_ToEtree_range gen [] StructVar resultvar errvar s = ([], s)\<close>
| \<open>structParam_ToEtree_range gen (param # params) StructVar resultvar errvar s =
     (let (MemberVar, s) = gen [''member''] s;
          (TempValueVar, s) = gen [''value''] s;
          (StructItemVar, s) = gen [''struct_var''] s;
          (val, s) = ToEtree gen param TempValueVar StructItemVar errvar s;
          (rest, s) = structParam_ToEtree_range gen params StructVar resultvar errvar s
      in (nl 3 @
          nl 3 @ MemberVar @ '' := '' @ StructVar @ ''.CreateElement("member")'' @
          nl 0 @
          nl 3 @ ''// first create "name" xml element with member name'' @
          nl 3 @ MemberVar @ ''.CreateElement("name").SetText("'' @ Name param @ ''")'' @
          nl 0 @
          nl 3 @
          nl 3 @ TempValueVar @ '' := '' @ MemberVar @ ''.CreateElement("value")'' @
          nl 0 @
          nl 3 @ ''// make shortcut to struct member '' @
          nl 3 @ StructItemVar @ '' := '' @ resultvar @ ''.'' @ Name param @
          nl 0 @
          nl 3 @ ''// set value'' @
          nl 3 @ val @
          nl 2 @ rest, s))\<close>

section \<open>The statements of the encode fragments\<close>

text \<open>
  An encode fragment is Go source text. To say what the fragment does when it runs, the
  statements that the encode templates are made of are given as syntax trees, with the
  layout of the templates kept (\<open>NL k\<close> is a line break and \<open>k\<close> tabs, \<open>Blank\<close> a space before
  an argument), so that printing a tree gives the text of the fragment character by
  character.
\<close>

datatype expr =
    Ident string
  | StringLit string
  | IntLit int
  | Selector expr string
  | CreateElement expr string
  | strconv_Itoa expr
  | int_conv expr
  | Error_call expr
  | Code_call expr
  | Blank expr

datatype stmt =
    NL nat
  | Comment string
  | Define string expr
  | Assign string expr
  | SetText expr expr
  | If expr "stmt list"
  | IfAssert string string expr "stmt list"
  | ForRange string expr "stmt list"

fun print_expr :: "expr \<Rightarrow> string" where
  \<open>print_expr (Ident x) = x\<close>
| \<open>print_expr (StringLit s) = ''"'' @ s @ ''"''\<close>
| \<open>print_expr (IntLit i) = Itoa i\<close>
| \<open>print_expr (Selector e f) = print_expr e @ ''.'' @ f\<close>
| \<open>print_expr (CreateElement e tag) = print_expr e @ ''.CreateElement("'' @ tag @ ''")''\<close>
| \<open>print_expr (strconv_Itoa e) = ''strconv.Itoa('' @ print_expr e @ '')''\<close>
| \<open>print_expr (int_conv e) = ''int('' @ print_expr e @ '')''\<close>
| \<open>print_expr (Error_call e) = print_expr e @ ''.Error()''\<close>
| \<open>print_expr (Code_call e) = print_expr e @ ''.Code()''\<close>
| \<open>print_expr (Blank e) = '' '' @ print_expr e\<close>

fun print_stmt :: "stmt \<Rightarrow> string"
  and print_stmts :: "stmt list \<Rightarrow> string"
where
  \<open>print_stmt (NL k) = nl k\<close>
| \<open>print_stmt (Comment c) = ''//'' @ c\<close>
| \<open>print_stmt (Define x e) = x @ '' := '' @ print_expr e\<close>
| \<open>print_stmt (Assign x e) = x @ '' = '' @ print_expr e\<close>
| \<open>print_stmt (SetText t e) = print_expr t @ ''.SetText('' @ print_expr e @ '')''\<close>
| \<open>print_stmt (If e body) = ''if '' @ print_expr e @ '' {'' @ print_stmts body @ ''}''\<close>
| \<open>print_stmt (IfAssert x ok e body) =
     ''if '' @ x @ '', '' @ ok @ '' := '' @ print_expr e @ ''.(xmlrpc.Error); '' @ ok @ '' {'' @
     print_stmts body @ ''}''\<close>
| \<open>print_stmt (ForRange x e body) =
     ''for _, '' @ x @ '' := range '' @ print_expr e @ '' {'' @ print_stmts body @ ''}''\<close>
| \<open>print_stmts [] = []\<close>
| \<open>print_stmts (c # cs) = print_stmt c @ print_stmts cs\<close>

text \<open>
  The statements of \<^verbatim>\<open>ToEtree\<close>, template by template, with the names allocated in the same
  order as in \<open>ToEtree\<close>.
\<close>

fun ToEtree_stmts ::
    "'s GenerateVariableName \<Rightarrow> Param \<Rightarrow> string \<Rightarrow> string \<Rightarrow> string \<Rightarrow> 's \<Rightarrow> stmt list \<times> 's"
  and structParam_ToEtree_range_stmts ::
    "'s GenerateVariableName \<Rightarrow> Param list \<Rightarrow> string \<Rightarrow> string \<Rightarrow> string \<Rightarrow> 's \<Rightarrow> stmt list \<times> 's"
where
  \<open>ToEtree_stmts gen (boolParam name) element resultvar errvar s =
     (let (Temp, s) = gen [''boolstr''] s
      in ([NL 2, Define Temp (StringLit ''0''),
           NL 2, If (Ident resultvar)
             [NL 3, Assign Temp (StringLit ''1''),
              NL 2],
           NL 2, SetText (CreateElement (Ident element) ''boolean'') (Ident Temp)], s))\<close>
| \<open>ToEtree_stmts gen (intParam bitSize name typ unsigned) element resultvar errvar s =
     ([SetText (CreateElement (Ident element) ''int'') (strconv_Itoa (int_conv (Ident resultvar)))], s)\<close>
| \<open>ToEtree_stmts gen (structParam name typ params) element resultvar errvar s =
     (let (StructVar, s) = gen [''struct''] s;
          (members, s) = structParam_ToEtree_range_stmts gen params StructVar resultvar errvar s
      in ([NL 2, Define StructVar (CreateElement (Ident element) ''struct''),
           NL 2, Comment '' iterate over struct members'',
           NL 2] @ members @
          [NL 1], s))\<close>
| \<open>ToEtree_stmts gen (sliceParam name typ object) element resultvar errvar s =
     (let (Temp, s) = gen [''array_data''] s;
          (TempItem, s) = gen [''item''] s;
          (TempValueVar, s) = gen [''value''] s;
          (item, s) = ToEtree_stmts gen object TempValueVar TempItem errvar s
      in ([Define Temp (CreateElement (CreateElement (Ident element) ''array'') ''data''),
           NL 2, ForRange TempItem (Ident resultvar)
             ([NL 3, Define TempValueVar (CreateElement (Ident Temp) ''value''),
               NL 3] @ item @
              [NL 2]),
           NL 1], s))\<close>
| \<open>ToEtree_stmts gen (errorParam name typ) element resultvar errvar s =
     (let (CastVar, s) = gen [''code''] s;
          (StructVar, s) = gen [''struct''] s;
          (OkVar, s) = gen [''ok''] s;
          (ErrorCode, s) = gen [''code''] s;
          (Fault, s) = gen [''fault''] s;
          (member1, s) = gen [''member''] s;
          (member2, s) = gen [''member''] s
      in ([NL 0,
           NL 2, Comment '' move this code to error.'',
           NL 2, Define Fault (CreateElement (Ident element) ''fault''),
           NL 0,
           NL 2, Define ErrorCode (IntLit 500),
           NL 0,
           NL 2, Comment '' Try to cast error to xmlrpc.Error (with code added)'',
           NL 2, IfAssert CastVar OkVar (Ident resultvar)
             [NL 3, Assign ErrorCode (Code_call (Ident CastVar)),
              NL 2],
           NL 0,
           NL 2, Define StructVar (CreateElement (CreateElement (Ident Fault) ''value'') ''struct''),
           NL 0,
           NL 2,
           NL 2, Define member1 (CreateElement (Ident StructVar) ''member''),
           NL 2, SetText (CreateElement (Ident member1) ''name'') (StringLit ''faultCode''),
           NL 2, SetText (CreateElement (CreateElement (Ident member1) ''value'') ''int'')
                   (strconv_Itoa (Ident ErrorCode)),
           NL 0,
           NL 2,
           NL 2, Define member2 (CreateElement (Ident StructVar) ''member''),
           NL 2, SetText (CreateElement (Ident member2) ''name'') (StringLit ''faultString''),
           NL 2, SetText (CreateElement (CreateElement (Ident member2) ''value'') ''string'')
                   (Blank (Error_call (Ident resultvar))),
           NL 0,
           NL 1], s))\<close>
| \<open>ToEtree_stmts gen (stringParam name) element resultvar errvar s =
     (let (Temp, s) = gen [[]] s
      in ([SetText (CreateElement (Ident element) ''string'') (Ident resultvar)], s))\<close>
| \<open>structParam_ToEtree_range_stmts gen [] StructVar resultvar errvar s = ([], s)\<close>
| \<open>structParam_ToEtree_range_stmts gen (param # params) StructVar resultvar errvar s =
     (let (MemberVar, s) = gen [''member''] s;
          (TempValueVar, s) = gen [''value''] s;
          (StructItemVar, s) = gen [''struct_var''] s;
          (val, s) = ToEtree_stmts gen param TempValueVar StructItemVar errvar s;
          (rest, s) = structParam_ToEtree_range_stmts gen params StructVar resultvar errvar s
      in ([NL 3,
           NL 3, Define MemberVar (CreateElement (Ident StructVar) ''member''),
           NL 0,
           NL 3, Comment '' first create "name" xml element with member name'',
           NL 3, SetText (CreateElement (Ident MemberVar) ''name'') (StringLit (Name param)),
           NL 0,
           NL 3,
           NL 3, Define TempValueVar (CreateElement (Ident MemberVar) ''value''),
           NL 0,
           NL 3, Comment '' make shortcut to struct member '',
           NL 3, Define StructItemVar (Selector (Ident resultvar) (Name param)),
           NL 0,
           NL 3, Comment '' set value'',
           NL 3] @ val @
          [NL 2] @ rest, s))\<close>

section \<open>Wire documents and the values being encoded\<close>

text \<open>
  Modelled from the spec: the wire-document primitives that the fragments call belong to
  the etree library, not to this package; the spec lists their interface. An element has a
  tag, a text and a sequence of children; \<^verbatim>\<open>CreateElement(tag)\<close> appends a new, empty child
  and returns it; \<^verbatim>\<open>SetText\<close> replaces the text. The fragments never remove or reorder
  children, so an element is referred to by its position: the indices of the children on
  the way from the root.
\<close>

datatype xml = Element string string "xml list"

fun Children :: "xml \<Rightarrow> xml list" where
  "Children (Element tag txt kids) = kids"

type_synonym path = "nat list"

fun node_at :: "path \<Rightarrow> xml \<Rightarrow> xml option" where
  "node_at [] t = Some t"
| "node_at (i # p) (Element tag txt kids) = (if i < length kids then node_at p (kids ! i) else None)"

fun modify_at :: "path \<Rightarrow> (xml \<Rightarrow> xml) \<Rightarrow> xml \<Rightarrow> xml" where
  "modify_at [] f t = f t"
| "modify_at (i # p) f (Element tag txt kids) =
     (if i < length kids then Element tag txt (kids[i := modify_at p f (kids ! i)])
      else Element tag txt kids)"

fun add_child :: "xml \<Rightarrow> xml \<Rightarrow> xml" where
  "add_child c (Element tag txt kids) = Element tag txt (kids @ [c])"

fun add_children :: "xml list \<Rightarrow> xml \<Rightarrow> xml" where
  "add_children cs (Element tag txt kids) = Element tag txt (kids @ cs)"

fun set_text :: "string \<Rightarrow> xml \<Rightarrow> xml" where
  "set_text s (Element tag txt kids) = Element tag s kids"

text \<open>
  The values a fragment handles at run time: the Go values of the shapes (an error value
  has its description and, when it implements \<^verbatim>\<open>xmlrpc.Error\<close>, its code), and pointers to
  elements. Integers are not bounded here: the conversion \<^verbatim>\<open>int(...)\<close> of the integer template
  is the identity, as it is for every signed width on a platform whose \<^verbatim>\<open>int\<close> has 64 bits.
\<close>

datatype val =
    BoolVal bool
  | IntVal int
  | StringVal string
  | StructVal "(string \<times> val) list"
  | SliceVal "val list"
  | ErrorVal string "int option"
  | ElementPtr path

section \<open>Running the statements\<close>

text \<open>
  A state is the variables in scope and the document. Variables are kept in one flat
  environment: a block does not discard the variables declared in it. Evaluation fails
  (\<open>None\<close>) on an unbound variable, on a value of the wrong kind, on a pointer to no
  element, and on a string literal that contains a quote, a backslash or a line break
  (the templates write names between quotes without escaping them).
\<close>

type_synonym env = "string \<Rightarrow> val option"

definition literal_ok :: "string \<Rightarrow> bool" where
  "literal_ok s = list_all (\<lambda>c. c \<noteq> CHR 0x22 \<and> c \<noteq> CHR 0x5C \<and> c \<noteq> CHR 0x0A) s"

fun eval :: "expr \<Rightarrow> env \<Rightarrow> xml \<Rightarrow> (val \<times> xml) option" where
  "eval (Ident x) env doc = (case env x of Some v \<Rightarrow> Some (v, doc) | None \<Rightarrow> None)"
| "eval (StringLit s) env doc = (if literal_ok s then Some (StringVal s, doc) else None)"
| "eval (IntLit i) env doc = Some (IntVal i, doc)"
| "eval (Selector e f) env doc =
     (case eval e env doc of
        Some (StructVal fields, doc') \<Rightarrow>
          (case map_of fields f of Some v \<Rightarrow> Some (v, doc') | None \<Rightarrow> None)
      | _ \<Rightarrow> None)"
| "eval (CreateElement e tag) env doc =
     (case eval e env doc of
        Some (ElementPtr q, doc') \<Rightarrow>
          (case node_at q doc' of
             Some n \<Rightarrow>
               Some (ElementPtr (q @ [length (Children n)]),
                     modify_at q (add_child (Element tag [] [])) doc')
           | None \<Rightarrow> None)
      | _ \<Rightarrow> None)"
| "eval (strconv_Itoa e) env doc =
     (case eval e env doc of Some (IntVal i, doc') \<Rightarrow> Some (StringVal (Itoa i), doc') | _ \<Rightarrow> None)"
| "eval (int_conv e) env doc =
     (case eval e env doc of Some (IntVal i, doc') \<Rightarrow> Some (IntVal i, doc') | _ \<Rightarrow> None)"
| "eval (Error_call e) env doc =
     (case eval e env doc of
        Some (ErrorVal description code, doc') \<Rightarrow> Some (StringVal description, doc')
      | _ \<Rightarrow> None)"
| "eval (Code_call e) env doc =
     (case eval e env doc of
        Some (ErrorVal description (Some code), doc') \<Rightarrow> Some (IntVal code, doc')
      | _ \<Rightarrow> None)"
| "eval (Blank e) env doc = eval e env doc"

fun exec :: "stmt \<Rightarrow> env \<times> xml \<Rightarrow> (env \<times> xml) option"
  and exec_stmts :: "stmt list \<Rightarrow> env \<times> xml \<Rightarrow> (env \<times> xml) option"
  and exec_range :: "string \<Rightarrow> stmt list \<Rightarrow> val list \<Rightarrow> env \<times> xml \<Rightarrow> (env \<times> xml) option"
where
  "exec (NL k) st = Some st"
| "exec (Comment c) st = Some st"
| "exec (Define x e) st =
     (case eval e (fst st) (snd st) of
        Some (v, doc') \<Rightarrow> Some ((fst st)(x \<mapsto> v), doc')
      | None \<Rightarrow> None)"
| "exec (Assign x e) st =
     (case eval e (fst st) (snd st) of
        Some (v, doc') \<Rightarrow> (if fst st x = None then None else Some ((fst st)(x \<mapsto> v), doc'))
      | None \<Rightarrow> None)"
| "exec (SetText t e) st =
     (case eval t (fst st) (snd st) of
        Some (ElementPtr q, doc') \<Rightarrow>
          (case eval e (fst st) doc' of
             Some (StringVal s, doc'') \<Rightarrow>
               (if node_at q doc'' = None then None
                else Some (fst st, modify_at q (set_text s) doc''))
           | _ \<Rightarrow> None)
      | _ \<Rightarrow> None)"
| "exec (If e body) st =
     (case eval e (fst st) (snd st) of
        Some (BoolVal b, doc') \<Rightarrow> (if b then exec_stmts body (fst st, doc') else Some (fst st, doc'))
      | _ \<Rightarrow> None)"
| "exec (IfAssert x ok e body) st =
     (case eval e (fst st) (snd st) of
        Some (ErrorVal description code, doc') \<Rightarrow>
          (if code = None then Some (fst st, doc')
           else exec_stmts body ((fst st)(x \<mapsto> ErrorVal description code, ok \<mapsto> BoolVal True), doc'))
      | _ \<Rightarrow> None)"
| "exec (ForRange x e body) st =
     (case eval e (fst st) (snd st) of
        Some (SliceVal vs, doc') \<Rightarrow> exec_range x body vs (fst st, doc')
      | _ \<Rightarrow> None)"
| "exec_stmts [] st = Some st"
| "exec_stmts (c # cs) st =
     (case exec c st of Some st' \<Rightarrow> exec_stmts cs st' | None \<Rightarrow> None)"
| "exec_range x body [] st = Some st"
| "exec_range x body (v # vs) st =
     (case exec_stmts body ((fst st)(x \<mapsto> v), snd st) of
        Some st' \<Rightarrow> exec_range x body vs st'
      | None \<Rightarrow> None)"

text \<open>
  The variables a statement declares (by \<^verbatim>\<open>:=\<close>, by a type assertion or as the variable of
  \<^verbatim>\<open>range\<close>) and the declared variables it assigns to.
\<close>

fun declares :: "stmt \<Rightarrow> string list"
  and declares_stmts :: "stmt list \<Rightarrow> string list"
where
  "declares (NL k) = []"
| "declares (Comment c) = []"
| "declares (Define x e) = [x]"
| "declares (Assign x e) = []"
| "declares (SetText t e) = []"
| "declares (If e body) = declares_stmts body"
| "declares (IfAssert x ok e body) = x # ok # declares_stmts body"
| "declares (ForRange x e body) = x # declares_stmts body"
| "declares_stmts [] = []"
| "declares_stmts (c # cs) = declares c @ declares_stmts cs"

fun assigns :: "stmt \<Rightarrow> string list"
  and assigns_stmts :: "stmt list \<Rightarrow> string list"
where
  "assigns (Assign x e) = [x]"
| "assigns (If e body) = assigns_stmts body"
| "assigns (IfAssert x ok e body) = assigns_stmts body"
| "assigns (ForRange x e body) = assigns_stmts body"
| "assigns c = []"
| "assigns_stmts [] = []"
| "assigns_stmts (c # cs) = assigns c @ assigns_stmts cs"

section \<open>The wire form of a value, as the spec describes it\<close>

text \<open>
  The second definition of encoding, written from the table of the spec and not from the
  templates: the element that encoding a value of a shape adds to its target. A boolean is
  \<^verbatim>\<open>0\<close> or \<^verbatim>\<open>1\<close> in a \<^verbatim>\<open>boolean\<close> element, an integer its decimal text in an \<^verbatim>\<open>int\<close> element,
  a string its text in a \<^verbatim>\<open>string\<close> element; a structure is a \<^verbatim>\<open>struct\<close> element with one
  \<^verbatim>\<open>member\<close> per child, in order, holding a \<^verbatim>\<open>name\<close> and a \<^verbatim>\<open>value\<close>; a list is an \<^verbatim>\<open>array\<close>
  holding a \<^verbatim>\<open>data\<close> element with one \<^verbatim>\<open>value\<close> per element; a failure is a \<^verbatim>\<open>fault\<close> holding a
  structure of \<^verbatim>\<open>faultCode\<close> (500 unless the value has a code) and \<^verbatim>\<open>faultString\<close>.
\<close>

definition wire_member :: "string \<Rightarrow> xml \<Rightarrow> xml" where
  "wire_member name x =
     Element ''member'' [] [Element ''name'' name [], Element ''value'' [] [x]]"

fun wire :: "Param \<Rightarrow> val \<Rightarrow> xml option"
  and wire_members :: "Param list \<Rightarrow> (string \<times> val) list \<Rightarrow> xml list option"
  and wire_values :: "Param \<Rightarrow> val list \<Rightarrow> xml list option"
where
  "wire (boolParam name) v =
     (case v of BoolVal b \<Rightarrow> Some (Element ''boolean'' (if b then ''1'' else ''0'') []) | _ \<Rightarrow> None)"
| "wire (intParam bitSize name typ unsigned) v =
     (case v of IntVal i \<Rightarrow> Some (Element ''int'' (Itoa i) []) | _ \<Rightarrow> None)"
| "wire (stringParam name) v =
     (case v of StringVal s \<Rightarrow> Some (Element ''string'' s []) | _ \<Rightarrow> None)"
| "wire (structParam name typ params) v =
     (case v of
        StructVal fields \<Rightarrow>
          (case wire_members params fields of
             Some members \<Rightarrow> Some (Element ''struct'' [] members)
           | None \<Rightarrow> None)
      | _ \<Rightarrow> None)"
| "wire (sliceParam name typ object) v =
     (case v of
        SliceVal vs \<Rightarrow>
          (case wire_values object vs of
             Some values \<Rightarrow> Some (Element ''array'' [] [Element ''data'' [] values])
           | None \<Rightarrow> None)
      | _ \<Rightarrow> None)"
| "wire (errorParam name typ) v =
     (case v of
        ErrorVal description code \<Rightarrow>
          Some (Element ''fault'' []
            [Element ''value'' []
              [Element ''struct'' []
                [wire_member ''faultCode''
                   (Element ''int'' (Itoa (case code of None \<Rightarrow> 500 | Some c \<Rightarrow> c)) []),
                 wire_member ''faultString'' (Element ''string'' description [])]]])
      | _ \<Rightarrow> None)"
| "wire_members [] fields = Some []"
| "wire_members (p # ps) fields =
     (case map_of fields (Name p) of
        Some v \<Rightarrow>
          (case wire p v of
             Some x \<Rightarrow>
               (case wire_members ps fields of
                  Some members \<Rightarrow> Some (wire_member (Name p) x # members)
                | None \<Rightarrow> None)
           | None \<Rightarrow> None)
      | None \<Rightarrow> None)"
| "wire_values object [] = Some []"
| "wire_values object (v # vs) =
     (case wire object v of
        Some x \<Rightarrow>
          (case wire_values object vs of
             Some values \<Rightarrow> Some (Element ''value'' [] [x] # values)
           | None \<Rightarrow> None)
      | None \<Rightarrow> None)"

text \<open>The names that the struct template writes between quotes.\<close>

fun member_names_ok :: "Param \<Rightarrow> bool"
  and member_names_ok_list :: "Param list \<Rightarrow> bool"
where
  "member_names_ok (structParam name typ params) = member_names_ok_list params"
| "member_names_ok (sliceParam name typ object) = member_names_ok object"
| "member_names_ok p = True"
| "member_names_ok_list [] = True"
| "member_names_ok_list (p # ps) = (literal_ok (Name p) \<and> member_names_ok p \<and> member_names_ok_list ps)"

section \<open>Instances of the parameters, for evaluation on concrete inputs\<close>

text \<open>
  An allocator as the spec describes it: the state is a counter, a call increments it and
  returns the prefix (\<^verbatim>\<open>var\<close> when there is none), an underscore and the counter.
\<close>

definition counter_names :: "nat GenerateVariableName" where
  "counter_names prefix n =
     ((case prefix of [] \<Rightarrow> ''var'' | p # ps \<Rightarrow> p) @ ''_'' @ nat_digits (Suc n), Suc n)"

text \<open>
  An instance of \<open>TypeString\<close> that prints types the way go/types does without a package
  qualifier, for the type forms the examples use.
\<close>

fun BasicKind_name :: "BasicKind \<Rightarrow> string" where
  "BasicKind_name types_Invalid = ''invalid type''"
| "BasicKind_name types_Bool = ''bool''"
| "BasicKind_name types_Int = ''int''"
| "BasicKind_name types_Int8 = ''int8''"
| "BasicKind_name types_Int16 = ''int16''"
| "BasicKind_name types_Int32 = ''int32''"
| "BasicKind_name types_Int64 = ''int64''"
| "BasicKind_name types_Uint = ''uint''"
| "BasicKind_name types_Uint8 = ''uint8''"
| "BasicKind_name types_Uint16 = ''uint16''"
| "BasicKind_name types_Uint32 = ''uint32''"
| "BasicKind_name types_Uint64 = ''uint64''"
| "BasicKind_name types_Uintptr = ''uintptr''"
| "BasicKind_name types_Float32 = ''float32''"
| "BasicKind_name types_Float64 = ''float64''"
| "BasicKind_name types_Complex64 = ''complex64''"
| "BasicKind_name types_Complex128 = ''complex128''"
| "BasicKind_name types_String = ''string''"
| "BasicKind_name types_UnsafePointer = ''unsafe.Pointer''"

fun go_TypeString :: "types_Type \<Rightarrow> string"
  and go_FieldsString :: "Var list \<Rightarrow> string"
  and go_TupleString :: "types_Type list \<Rightarrow> string"
where
  "go_TypeString (Basic k) = BasicKind_name k"
| "go_TypeString (Struct fields) = ''struct{'' @ go_FieldsString fields @ ''}''"
| "go_TypeString (Array n elem) = ''['' @ nat_digits n @ '']'' @ go_TypeString elem"
| "go_TypeString (Slice elem) = ''[]'' @ go_TypeString elem"
| "go_TypeString (Named pkg obj) = (if pkg = [] then obj else pkg @ ''.'' @ obj)"
| "go_TypeString (Pointer elem) = ''*'' @ go_TypeString elem"
| "go_TypeString (MapType key elem) = ''map['' @ go_TypeString key @ '']'' @ go_TypeString elem"
| "go_TypeString (Chan elem) = ''chan '' @ go_TypeString elem"
| "go_TypeString (Signature params results) =
     ''func('' @ go_TupleString params @ '') ('' @ go_TupleString results @ '')''"
| "go_TypeString (Interface methods) = ''interface{'' @ concat (map (\<lambda>m. m @ ''(); '') methods) @ ''}''"
| "go_FieldsString [] = []"
| "go_FieldsString (NewVar n t # fields) =
     n @ '' '' @ go_TypeString t @ (if fields = [] then [] else ''; '' @ go_FieldsString fields)"
| "go_TupleString [] = []"
| "go_TupleString (t # ts) =
     go_TypeString t @ (if ts = [] then [] else '', '' @ go_TupleString ts)"

section \<open>Properties of the resolver\<close>

lemma nat_digits_digit: "n < 10 \<Longrightarrow> nat_digits n = [digit_char n]"
  by (simp add: nat_digits.simps)

lemma Itoa_widths:
  "Itoa 8 = ''8''" "Itoa 16 = ''16''" "Itoa 32 = ''32''" "Itoa 64 = ''64''"
  by (simp_all add: Itoa_def nat_digits.simps digit_char_def)

lemma intParam_Type_cases:
  "intParam_Type bitSize unsigned =
     (if unsigned then ''uint'' else ''int'') @ (if bitSize > 0 then Itoa bitSize else [])"
  by (simp add: intParam_Type_def)

text \<open>
  Signed integer shapes resolve to an \<^verbatim>\<open>intParam\<close> whose label is \<^verbatim>\<open>int\<close> and the width, with
  no suffix for the width 0 of \<^verbatim>\<open>types.Int\<close>.
\<close>

lemma getParam_signed:
  "k \<in> {types_Int, types_Int8, types_Int16, types_Int32, types_Int64} \<Longrightarrow>
   getParam TypeString (NewVar name (Basic k)) = Inr (intParam (basic_bitSize k) name [] False) \<and>
   Type (intParam (basic_bitSize k) name [] False) =
     (case k of types_Int \<Rightarrow> ''int'' | types_Int8 \<Rightarrow> ''int8'' | types_Int16 \<Rightarrow> ''int16''
      | types_Int32 \<Rightarrow> ''int32'' | _ \<Rightarrow> ''int64'')"
  by (auto simp: newIntParam_def intParam_Type_cases Itoa_widths)

text \<open>
  The unsigned kinds are in none of the cases of \<^verbatim>\<open>getParam\<close>'s inner switch: control leaves
  the outer switch and reaches the final \<^verbatim>\<open>Exit\<close>.
\<close>

lemma getParam_unsigned:
  "k \<in> {types_Uint, types_Uint8, types_Uint16, types_Uint32, types_Uint64} \<Longrightarrow>
   getParam TypeString (NewVar name (Basic k)) =
     Inl (Exit ''not supported param: %v'' [TypeString (Basic k)])"
  by auto

text \<open>
  C4. An unsigned 32-bit integer shape does not resolve to a leaf labelled \<^verbatim>\<open>uint32\<close>: the
  resolver exits with the unsupported-parameter diagnostic, although an \<^verbatim>\<open>intParam\<close> built
  with \<^verbatim>\<open>unsigned\<close> set and width 32 would carry that label.
\<close>

theorem getParam_uint32_exits:
  "getParam go_TypeString (NewVar ''n'' (Basic types_Uint32)) =
     Inl (Exit ''not supported param: %v'' [''uint32'']) \<and>
   Type (newIntParam ''n'' 32 True) = ''uint32''"
  by (simp add: newIntParam_def intParam_Type_cases Itoa_widths)

text \<open>
  C8. Resolving a fixed-size array, a named type other than the failure marker, a pointer,
  a map, a channel, a function type or an interface ends in \<^verbatim>\<open>Exit\<close>: the result is the
  fatal diagnostic and never a node.
\<close>

theorem getParam_unsupported_exits:
  "getParam TypeString (NewVar name (Array n elem)) = Inl (Exit ''array'' []) \<and>
   (TypeString (Named pkg obj) \<noteq> ''error'' \<longrightarrow>
      getParam TypeString (NewVar name (Named pkg obj)) =
        Inl (Exit ''No support for named parameters. use inline definitions.'' [])) \<and>
   getParam TypeString (NewVar name (Pointer elem)) =
     Inl (Exit ''not supported param: %v'' [TypeString (Pointer elem)]) \<and>
   getParam TypeString (NewVar name (MapType key elem)) =
     Inl (Exit ''not supported param: %v'' [TypeString (MapType key elem)]) \<and>
   getParam TypeString (NewVar name (Chan elem)) =
     Inl (Exit ''not supported param: %v'' [TypeString (Chan elem)]) \<and>
   getParam TypeString (NewVar name (Signature params results)) =
     Inl (Exit ''not supported param: %v'' [TypeString (Signature params results)]) \<and>
   getParam TypeString (NewVar name (Interface methods)) =
     Inl (Exit ''not supported param: %v'' [TypeString (Interface methods)])"
  by simp

theorem getParam_unsupported_exits_witness:
  "getParam go_TypeString (NewVar ''a'' (Array 4 (Basic types_Int))) = Inl (Exit ''array'' []) \<and>
   go_TypeString (Named ''time'' ''Duration'') \<noteq> ''error'' \<and>
   getParam go_TypeString (NewVar ''d'' (Named ''time'' ''Duration'')) =
     Inl (Exit ''No support for named parameters. use inline definitions.'' []) \<and>
   getParam go_TypeString (NewVar ''p'' (Pointer (Basic types_Int))) =
     Inl (Exit ''not supported param: %v'' [''*int''])"
  using getParam_unsupported_exits [of go_TypeString "''a''" 4 "Basic types_Int" "''time''" "''Duration''"]
    getParam_unsupported_exits [of go_TypeString "''p''" 4 "Basic types_Int" "''time''" "''Duration''"]
  by simp

text \<open>
  C10. A variable whose type prints as \<^verbatim>\<open>error\<close> resolves to the failure node named
  \<^verbatim>\<open>err\<close>, whatever the variable is called; a node resolved from any other type form
  carries the declared name.
\<close>

theorem getParam_error_name:
  "(TypeString (Named pkg obj) = ''error'' \<longrightarrow>
      getParam TypeString (NewVar declared (Named pkg obj)) = Inr (errorParam ''err'' ''error'') \<and>
      Name (errorParam ''err'' ''error'') = ''err'') \<and>
   (getParam TypeString (NewVar declared t) = Inr p \<longrightarrow>
      Name p = (case t of Named pkg' obj' \<Rightarrow> ''err'' | _ \<Rightarrow> declared))"
  by (cases t)
    (auto simp: newErrorParam_def newIntParam_def newStringParam_def newBoolParam_def
      newSliceParam_def split: sum.splits if_splits)

theorem getParam_error_name_witness:
  "go_TypeString (Named [] ''error'') = ''error'' \<and>
   getParam go_TypeString (NewVar ''failure'' (Named [] ''error'')) = Inr (errorParam ''err'' ''error'') \<and>
   Name (errorParam ''err'' ''error'') = ''err'' \<and>
   getParam go_TypeString (NewVar ''failure'' (Basic types_Bool)) = Inr (boolParam ''failure'') \<and>
   Name (boolParam ''failure'') = ''failure''"
  using getParam_error_name [of go_TypeString "[]" "''error''" "''failure''" "Basic types_Bool" "boolParam ''failure''"]
  by (simp add: newBoolParam_def)

section \<open>Properties of the decode fragments\<close>

text \<open>
  C9. The decode fragment of the failure node is empty, whatever the source reference, the
  result variable and the error variable are, and it allocates no name.
\<close>

theorem errorParam_FromEtree_empty:
  "FromEtree gen (errorParam name typ) sourceRef resultVarName errorVarName s = ([], s) \<and>
   FromEtree gen (newErrorParam name) sourceRef resultVarName errorVarName s = ([], s)"
  by (simp add: newErrorParam_def)

lemma nat_digits_small [simp]:
  "nat_digits (Suc 0) = ''1''"
  "nat_digits (Suc (Suc 0)) = ''2''"
  "nat_digits (Suc (Suc (Suc 0))) = ''3''"
  "nat_digits (Suc (Suc (Suc (Suc 0)))) = ''4''"
  "nat_digits (Suc (Suc (Suc (Suc (Suc 0))))) = ''5''"
  "nat_digits (Suc (Suc (Suc (Suc (Suc (Suc 0)))))) = ''6''"
  "nat_digits (Suc (Suc (Suc (Suc (Suc (Suc (Suc 0))))))) = ''7''"
  "nat_digits (Suc (Suc (Suc (Suc (Suc (Suc (Suc (Suc 0)))))))) = ''8''"
  "nat_digits (Suc (Suc (Suc (Suc (Suc (Suc (Suc (Suc (Suc 0))))))))) = ''9''"
  using nat_digits_digit [of 1] nat_digits_digit [of 2] nat_digits_digit [of 3]
    nat_digits_digit [of 4] nat_digits_digit [of 5] nat_digits_digit [of 6]
    nat_digits_digit [of 7] nat_digits_digit [of 8] nat_digits_digit [of 9]
  by (simp_all add: digit_char_def eval_nat_numeral)

lemma counter_names_simps [simp]:
  "counter_names [] n = (''var_'' @ nat_digits (Suc n), Suc n)"
  "counter_names (p # ps) n = (p @ ''_'' @ nat_digits (Suc n), Suc n)"
  by (simp_all add: counter_names_def)

text \<open>
  The declaration emitted for a list is \<^verbatim>\<open>[]\<close> followed by \<^verbatim>\<open>Type()\<close>, and \<^verbatim>\<open>Type()\<close> of a list
  node already starts with \<^verbatim>\<open>[]\<close>: for every list node the declared type is \<^verbatim>\<open>[][]\<close> and the
  element type.
\<close>

lemma sliceParam_FromEtree_declaration:
  "\<exists>rest s'. FromEtree gen (sliceParam name typ object) element resultvar errvar s =
     (nl 1 @ ''// This is slice implementation of '' @ resultvar @
      nl 1 @ resultvar @ '' := [][]'' @ typ @ ''{}'' @ rest, s')"
  by (simp add: split_def Let_def)

text \<open>
  C1. For the shape \<^verbatim>\<open>[]int\<close> of a variable \<^verbatim>\<open>xs\<close> the resolver builds a list node with
  element label \<^verbatim>\<open>int\<close> and type label \<^verbatim>\<open>[]int\<close>, and the decode fragment declares the
  result as \<^verbatim>\<open>[][]int{}\<close>.
\<close>

theorem sliceParam_FromEtree_int:
  \<open>getParam go_TypeString (NewVar ''xs'' (Slice (Basic types_Int))) =
     Inr (sliceParam ''xs'' ''int'' (intParam 0 ''xs'' [] False)) \<and>
   Type (sliceParam ''xs'' ''int'' (intParam 0 ''xs'' [] False)) = ''[]int'' \<and>
   FromEtree counter_names (sliceParam ''xs'' ''int'' (intParam 0 ''xs'' [] False))
       ''el'' ''res'' ''err'' 0 =
     (nl 1 @ ''// This is slice implementation of res'' @
      nl 1 @ ''res := [][]int{}'' @
      nl 0 @
      nl 1 @
      nl 0 @
      nl 1 @ ''// Lets iterate over given members.'' @
      nl 1 @ ''for _, member_1 := range el.FindElements("array/data/value") {'' @
      nl 2 @
      nl 2 @
      nl 1 @ ''var value_2 int'' @
      nl 1 @ ''if value_2, err = xmlrpc.XPathValueGetInt(member_1, "xs"); err != nil {'' @
      nl 2 @ ''return'' @
      nl 1 @ ''}'' @
      nl 2 @ ''res = append(res, value_2)'' @
      nl 1 @ ''}'' @
      nl 1, 2)\<close>
  by (simp add: newSliceParam_def newIntParam_def intParam_Type_cases getParseFunc_def)

text \<open>
  For every structure node the decode fragment starts in the same way, whatever the names
  passed in: it iterates the elements found by the query \<^verbatim>\<open>struct/members\<close>, and it leaves a
  member without a name by \<^verbatim>\<open>return errors.New(...)\<close>.
\<close>

lemma structParam_FromEtree_head:
  \<open>\<exists>rest s'. FromEtree gen (structParam name typ params) element resultvar errvar s =
     (nl 1 @ ''// rendering struct'' @
      nl 1 @ resultvar @ '' := '' @ typ @ ''{}'' @
      nl 0 @
      nl 1 @
      nl 1 @
      nl 1 @
      nl 0 @
      nl 1 @ ''// Lets iterate over given members.'' @
      nl 1 @ ''// @TODO: we should check first "struct" if not provided it's probably error'' @
      nl 1 @ ''for _, member := range '' @ element @ ''.FindElements("struct/members") {'' @
      nl 2 @ ''var '' @ fst (gen [''name_elem''] s) @ '' *etree.Element'' @
      nl 2 @ ''if '' @ fst (gen [''name_elem''] s) @ '' = member.FindElement("name"); '' @
        fst (gen [''name_elem''] s) @ '' == nil {'' @
      nl 3 @ ''return errors.New("no name provided")'' @ rest, s')\<close>
  by (simp add: split_def Let_def)

text \<open>
  C2. For the shape \<^verbatim>\<open>struct{A int}\<close> the decode fragment queries \<^verbatim>\<open>struct/members\<close>, and the
  encode fragment creates \<^verbatim>\<open>member\<close> elements under \<^verbatim>\<open>struct\<close>.
\<close>

theorem structParam_member_tags:
  \<open>getParam go_TypeString (NewVar ''w'' (Struct [NewVar ''A'' (Basic types_Int)])) =
     Inr (structParam ''w'' ''struct{A int}'' [intParam 0 ''A'' [] False]) \<and>
   FromEtree counter_names (structParam ''w'' ''struct{A int}'' [intParam 0 ''A'' [] False])
       ''el'' ''res'' ''err'' 0 =
     (nl 1 @ ''// rendering struct'' @
      nl 1 @ ''res := struct{A int}{}'' @
      nl 0 @
      nl 1 @
      nl 1 @
      nl 1 @
      nl 0 @
      nl 1 @ ''// Lets iterate over given members.'' @
      nl 1 @ ''// @TODO: we should check first "struct" if not provided it's probably error'' @
      nl 1 @ ''for _, member := range el.FindElements("struct/members") {'' @
      nl 2 @ ''var name_elem_1 *etree.Element'' @
      nl 2 @ ''if name_elem_1 = member.FindElement("name"); name_elem_1 == nil {'' @
      nl 3 @ ''return errors.New("no name provided")'' @
      nl 2 @ ''}'' @
      nl 0 @
      nl 2 @ ''name_2 := name_elem_1.Text()'' @
      nl 0 @
      nl 2 @ ''var value_3 *etree.Element'' @
      nl 2 @ ''if value_3 = member.FindElement("value"); value_3 == nil {'' @
      nl 3 @ ''return errors.New("no name provided")'' @
      nl 2 @ ''}'' @
      nl 0 @
      nl 2 @ ''// switch over param names (over all params)'' @
      nl 2 @ ''switch name_2 {'' @
      nl 3 @
      nl 4 @ ''case "A": '' @
      nl 4 @
      nl 4 @
      nl 1 @ ''var var_4 int'' @
      nl 1 @ ''if var_4, err = xmlrpc.XPathValueGetInt(value_3, "A"); err != nil {'' @
      nl 2 @ ''return'' @
      nl 1 @ ''}'' @
      nl 0 @
      nl 4 @ ''// Assign to variable (for pointer support we can provide it here'' @
      nl 4 @ ''res.A = var_4'' @
      nl 2 @ ''}'' @
      nl 1 @ ''}'' @
      nl 1, 4) \<and>
   ToEtree counter_names (structParam ''w'' ''struct{A int}'' [intParam 0 ''A'' [] False])
       ''el'' ''res'' ''err'' 0 =
     (nl 2 @ ''struct_1 := el.CreateElement("struct")'' @
      nl 2 @ ''// iterate over struct members'' @
      nl 2 @
      nl 3 @
      nl 3 @ ''member_2 := struct_1.CreateElement("member")'' @
      nl 0 @
      nl 3 @ ''// first create "name" xml element with member name'' @
      nl 3 @ ''member_2.CreateElement("name").SetText("A")'' @
      nl 0 @
      nl 3 @
      nl 3 @ ''value_3 := member_2.CreateElement("value")'' @
      nl 0 @
      nl 3 @ ''// make shortcut to struct member '' @
      nl 3 @ ''struct_var_4 := res.A'' @
      nl 0 @
      nl 3 @ ''// set value'' @
      nl 3 @ ''value_3.CreateElement("int").SetText(strconv.Itoa(int(struct_var_4)))'' @
      nl 2 @
      nl 1, 4)\<close>
  by (simp add: newIntParam_def intParam_Type_cases getParseFunc_def)

text \<open>
  C3. For the shape \<^verbatim>\<open>struct{A bool}\<close> and the error variable \<^verbatim>\<open>e\<close>, the decode fragment
  leaves a member without a name or a value by \<^verbatim>\<open>return errors.New(...)\<close>, and the field is
  extracted into the variable \<^verbatim>\<open>err\<close>: \<^verbatim>\<open>e\<close> occurs nowhere in the fragment.
\<close>

theorem structParam_FromEtree_failure_paths:
  \<open>FromEtree counter_names (structParam ''w'' ''struct{A bool}'' [boolParam ''A''])
       ''el'' ''res'' ''e'' 0 =
     (nl 1 @ ''// rendering struct'' @
      nl 1 @ ''res := struct{A bool}{}'' @
      nl 0 @
      nl 1 @
      nl 1 @
      nl 1 @
      nl 0 @
      nl 1 @ ''// Lets iterate over given members.'' @
      nl 1 @ ''// @TODO: we should check first "struct" if not provided it's probably error'' @
      nl 1 @ ''for _, member := range el.FindElements("struct/members") {'' @
      nl 2 @ ''var name_elem_1 *etree.Element'' @
      nl 2 @ ''if name_elem_1 = member.FindElement("name"); name_elem_1 == nil {'' @
      nl 3 @ ''return errors.New("no name provided")'' @
      nl 2 @ ''}'' @
      nl 0 @
      nl 2 @ ''name_2 := name_elem_1.Text()'' @
      nl 0 @
      nl 2 @ ''var value_3 *etree.Element'' @
      nl 2 @ ''if value_3 = member.FindElement("value"); value_3 == nil {'' @
      nl 3 @ ''return errors.New("no name provided")'' @
      nl 2 @ ''}'' @
      nl 0 @
      nl 2 @ ''// switch over param names (over all params)'' @
      nl 2 @ ''switch name_2 {'' @
      nl 3 @
      nl 4 @ ''case "A": '' @
      nl 4 @
      nl 4 @
      nl 1 @ ''var var_4 bool'' @
      nl 1 @ ''if var_4, err = xmlrpc.XPathValueGetBool(value_3, "A"); err != nil {'' @
      nl 2 @ ''return'' @
      nl 1 @ ''}'' @
      nl 1 @
      nl 0 @
      nl 4 @ ''// Assign to variable (for pointer support we can provide it here'' @
      nl 4 @ ''res.A = var_4'' @
      nl 2 @ ''}'' @
      nl 1 @ ''}'' @
      nl 1, 4)\<close>
  by simp

section \<open>The statements print as the fragments\<close>

lemma print_stmts_append [simp]: "print_stmts (cs @ ds) = print_stmts cs @ print_stmts ds"
  by (induction cs) simp_all

lemma Itoa_500 [simp]: "Itoa 500 = ''500''"
  by (simp add: Itoa_def nat_digits.simps digit_char_def)

lemma print_ToEtree_stmts:
  "print_stmts (fst (ToEtree_stmts gen p element resultvar errvar s)) =
     fst (ToEtree gen p element resultvar errvar s) \<and>
   snd (ToEtree_stmts gen p element resultvar errvar s) = snd (ToEtree gen p element resultvar errvar s)"
  and print_structParam_ToEtree_range_stmts:
  "print_stmts (fst (structParam_ToEtree_range_stmts gen ps StructVar resultvar errvar s)) =
     fst (structParam_ToEtree_range gen ps StructVar resultvar errvar s) \<and>
   snd (structParam_ToEtree_range_stmts gen ps StructVar resultvar errvar s) =
     snd (structParam_ToEtree_range gen ps StructVar resultvar errvar s)"
proof (induction gen p element resultvar errvar s and gen ps StructVar resultvar errvar s
    rule: ToEtree_stmts_structParam_ToEtree_range_stmts.induct)
  case (1 gen name element resultvar errvar s)
  show ?case by (simp add: split_def Let_def)
next
  case (2 gen bitSize name ty unsigned element resultvar errvar s)
  show ?case by simp
next
  case (3 gen name ty params element resultvar errvar s)
  from "3.IH" [OF refl prod.collapse] show ?case
    by (simp add: split_def Let_def)
next
  case (4 gen name ty object element resultvar errvar s)
  from "4.IH" [OF refl prod.collapse refl prod.collapse refl prod.collapse] show ?case
    by (simp add: split_def Let_def)
next
  case (5 gen name ty element resultvar errvar s)
  show ?case by (simp add: split_def Let_def)
next
  case (6 gen name element resultvar errvar s)
  show ?case by (simp add: split_def Let_def)
next
  case (7 gen StructVar resultvar errvar s)
  show ?case by simp
next
  case (8 gen param params StructVar resultvar errvar s)
  note child = "8.IH" (1) [OF refl prod.collapse refl prod.collapse refl prod.collapse]
  note rest = "8.IH" (2) [OF refl prod.collapse refl prod.collapse refl prod.collapse
      refl prod.collapse]
  from child rest show ?case
    by (simp add: split_def Let_def)
qed

section \<open>Positions in a document\<close>

lemma node_at_append:
  "node_at (q @ r) t = (case node_at q t of None \<Rightarrow> None | Some n \<Rightarrow> node_at r n)"
  by (induction q t rule: node_at.induct) simp_all

lemma modify_at_append: "modify_at (q @ r) f t = modify_at q (modify_at r f) t"
  by (induction q "modify_at r f" t rule: modify_at.induct) simp_all

lemma node_at_modify_at: "node_at q (modify_at q f t) = map_option f (node_at q t)"
  by (induction q f t rule: modify_at.induct) simp_all

lemma modify_at_modify_at: "modify_at q f (modify_at q g t) = modify_at q (\<lambda>n. f (g n)) t"
  by (induction q g t rule: modify_at.induct) simp_all

lemma modify_at_cong_node:
  "node_at q t = Some n \<Longrightarrow> f n = g n \<Longrightarrow> modify_at q f t = modify_at q g t"
proof (induction q f t rule: modify_at.induct)
  case (1 f t)
  then show ?case by simp
next
  case (2 i p f tag tx kids)
  then show ?case by (auto split: if_splits)
qed

text \<open>A change below the child that was just added is a change of the child before it is added.\<close>

lemma modify_at_new_child:
  assumes "node_at q doc = Some n"
  shows "modify_at (q @ length (Children n) # r) f (modify_at q (add_child c) doc) =
         modify_at q (add_child (modify_at r f c)) doc"
proof -
  have "modify_at (q @ length (Children n) # r) f (modify_at q (add_child c) doc) =
        modify_at q (\<lambda>m. modify_at (length (Children n) # r) f (add_child c m)) doc"
    by (simp add: modify_at_append modify_at_modify_at)
  also have "\<dots> = modify_at q (add_child (modify_at r f c)) doc"
    using assms by (rule modify_at_cong_node) (cases n, simp)
  finally show ?thesis .
qed

lemma node_at_new_child:
  assumes "node_at q doc = Some n"
  shows "node_at (q @ length (Children n) # r) (modify_at q (add_child c) doc) = node_at r c"
  using assms by (cases n) (simp add: node_at_append node_at_modify_at)

lemma add_children_add_child:
  assumes "node_at q doc = Some n"
  shows "modify_at q (add_children cs) (modify_at q (add_child c) doc) =
         modify_at q (add_children (c # cs)) doc"
proof -
  have "modify_at q (add_children cs) (modify_at q (add_child c) doc) =
        modify_at q (\<lambda>m. add_children cs (add_child c m)) doc"
    by (simp add: modify_at_modify_at)
  also have "\<dots> = modify_at q (add_children (c # cs)) doc"
    using assms by (rule modify_at_cong_node) (cases n, simp)
  finally show ?thesis .
qed

lemma add_children_Nil:
  assumes "node_at q doc = Some n"
  shows "modify_at q (add_children []) doc = doc"
  using assms
proof (induction q "add_children []" doc arbitrary: n rule: modify_at.induct)
  case (1 t)
  show ?case by (cases t) simp
next
  case (2 i p tag tx kids)
  then show ?case by (auto split: if_splits simp: list_update_same_conv)
qed

section \<open>Running statements in sequence; the variables a run leaves alone\<close>

lemma exec_stmts_append:
  "exec_stmts (cs @ ds) st =
     (case exec_stmts cs st of Some st' \<Rightarrow> exec_stmts ds st' | None \<Rightarrow> None)"
  by (induction cs arbitrary: st) (simp_all split: option.splits)

lemma exec_range_frame:
  assumes body: "\<And>st st'. exec_stmts body st = Some st' \<Longrightarrow> fst st' y = fst st y"
    and "exec_range x body vs st = Some st'" and "y \<noteq> x"
  shows "fst st' y = fst st y"
  using assms(2,3)
proof (induction vs arbitrary: st)
  case Nil
  then show ?case by simp
next
  case (Cons v vs)
  from Cons.prems obtain st1 where
    st1: "exec_stmts body ((fst st)(x \<mapsto> v), snd st) = Some st1" and
    rest: "exec_range x body vs st1 = Some st'"
    by (auto split: option.splits)
  from body [OF st1] Cons.prems have "fst st1 y = fst st y" by simp
  with Cons.IH [OF rest] Cons.prems show ?case by simp
qed

lemma exec_frame:
  "exec c st = Some st' \<Longrightarrow> y \<notin> set (declares c) \<Longrightarrow> y \<notin> set (assigns c) \<Longrightarrow>
     fst st' y = fst st y"
  and exec_stmts_frame:
  "exec_stmts cs st = Some st' \<Longrightarrow> y \<notin> set (declares_stmts cs) \<Longrightarrow>
     y \<notin> set (assigns_stmts cs) \<Longrightarrow> fst st' y = fst st y"
proof (induction c and cs arbitrary: st st' and st st' rule: declares_declares_stmts.induct)
  case (1 k)
  then show ?case by simp
next
  case (2 c)
  then show ?case by simp
next
  case (3 x e)
  then show ?case by (auto split: option.splits)
next
  case (4 x e)
  then show ?case by (auto split: option.splits if_splits)
next
  case (5 t e)
  then show ?case by (auto split: option.splits val.splits if_splits)
next
  case (6 e body)
  from "6.prems" consider
    (skip) doc' where "st' = (fst st, doc')" |
    (run) doc' where "exec_stmts body (fst st, doc') = Some st'"
    by (auto split: option.splits val.splits if_splits)
  then show ?case
  proof cases
    case skip
    then show ?thesis by simp
  next
    case run
    from "6.IH" [OF run] "6.prems" show ?thesis by simp
  qed
next
  case (7 x ok e body)
  from "7.prems" consider
    (skip) doc' where "st' = (fst st, doc')" |
    (run) doc' v where
      "exec_stmts body ((fst st)(x \<mapsto> v, ok \<mapsto> BoolVal True), doc') = Some st'"
    by (auto split: option.splits val.splits if_splits)
  then show ?case
  proof cases
    case skip
    then show ?thesis by simp
  next
    case run
    from "7.IH" [OF run] "7.prems" show ?thesis by simp
  qed
next
  case (8 x e body)
  from "8.prems" obtain vs doc' where
    run: "exec_range x body vs (fst st, doc') = Some st'"
    by (auto split: option.splits val.splits)
  have "fst st' y = fst (fst st, doc') y"
  proof (rule exec_range_frame [OF _ run])
    show "\<And>st st'. exec_stmts body st = Some st' \<Longrightarrow> fst st' y = fst st y"
      using "8.IH" "8.prems" by simp
    show "y \<noteq> x" using "8.prems" by simp
  qed
  then show ?case by simp
next
  case 9
  then show ?case by simp
next
  case (10 c cs)
  from "10.prems" obtain st1 where
    "exec c st = Some st1" "exec_stmts cs st1 = Some st'"
    by (auto split: option.splits)
  with "10.IH" "10.prems" show ?case by fastforce
qed

section \<open>What the leaf fragments do when they run\<close>

lemma boolParam_stmts_run:
  assumes "env element = Some (ElementPtr q)" and "env resultvar = Some (BoolVal b)"
    and "node_at q doc = Some n" and "Temp \<noteq> element" and "Temp \<noteq> resultvar"
  shows "\<exists>env'. exec_stmts
           [NL 2, Define Temp (StringLit ''0''),
            NL 2, If (Ident resultvar)
              [NL 3, Assign Temp (StringLit ''1''),
               NL 2],
            NL 2, SetText (CreateElement (Ident element) ''boolean'') (Ident Temp)] (env, doc) =
         Some (env', modify_at q (add_child (Element ''boolean'' (if b then ''1'' else ''0'') [])) doc)"
  using assms
  by (simp add: literal_ok_def modify_at_new_child [where r = "[]", simplified]
      node_at_new_child [where r = "[]", simplified])

lemma intParam_stmts_run:
  assumes "env element = Some (ElementPtr q)" and "env resultvar = Some (IntVal i)"
    and "node_at q doc = Some n"
  shows "exec_stmts
           [SetText (CreateElement (Ident element) ''int'') (strconv_Itoa (int_conv (Ident resultvar)))]
           (env, doc) =
         Some (env, modify_at q (add_child (Element ''int'' (Itoa i) [])) doc)"
  using assms
  by (simp add: modify_at_new_child [where r = "[]", simplified]
      node_at_new_child [where r = "[]", simplified])

lemma stringParam_stmts_run:
  assumes "env element = Some (ElementPtr q)" and "env resultvar = Some (StringVal t)"
    and "node_at q doc = Some n"
  shows "exec_stmts
           [SetText (CreateElement (Ident element) ''string'') (Ident resultvar)] (env, doc) =
         Some (env, modify_at q (add_child (Element ''string'' t [])) doc)"
  using assms
  by (simp add: modify_at_new_child [where r = "[]", simplified]
      node_at_new_child [where r = "[]", simplified])

lemma errorParam_stmts_run:
  assumes "env element = Some (ElementPtr q)" and "env resultvar = Some (ErrorVal description code)"
    and "node_at q doc = Some n"
    and "distinct [element, resultvar, Fault, ErrorCode, CastVar, OkVar, StructVar, member1, member2]"
  shows "\<exists>env'. exec_stmts
           [NL 0,
            NL 2, Comment '' move this code to error.'',
            NL 2, Define Fault (CreateElement (Ident element) ''fault''),
            NL 0,
            NL 2, Define ErrorCode (IntLit 500),
            NL 0,
            NL 2, Comment '' Try to cast error to xmlrpc.Error (with code added)'',
            NL 2, IfAssert CastVar OkVar (Ident resultvar)
              [NL 3, Assign ErrorCode (Code_call (Ident CastVar)),
               NL 2],
            NL 0,
            NL 2, Define StructVar (CreateElement (CreateElement (Ident Fault) ''value'') ''struct''),
            NL 0,
            NL 2,
            NL 2, Define member1 (CreateElement (Ident StructVar) ''member''),
            NL 2, SetText (CreateElement (Ident member1) ''name'') (StringLit ''faultCode''),
            NL 2, SetText (CreateElement (CreateElement (Ident member1) ''value'') ''int'')
                    (strconv_Itoa (Ident ErrorCode)),
            NL 0,
            NL 2,
            NL 2, Define member2 (CreateElement (Ident StructVar) ''member''),
            NL 2, SetText (CreateElement (Ident member2) ''name'') (StringLit ''faultString''),
            NL 2, SetText (CreateElement (CreateElement (Ident member2) ''value'') ''string'')
                    (Blank (Error_call (Ident resultvar))),
            NL 0,
            NL 1] (env, doc) =
         Some (env',
           modify_at q (add_child
             (Element ''fault'' []
               [Element ''value'' []
                 [Element ''struct'' []
                   [wire_member ''faultCode''
                      (Element ''int'' (Itoa (case code of None \<Rightarrow> 500 | Some c \<Rightarrow> c)) []),
                    wire_member ''faultString'' (Element ''string'' description [])]]])) doc)"
proof (cases code)
  case None
  with assms show ?thesis
    by (simp add: literal_ok_def wire_member_def modify_at_new_child node_at_new_child)
next
  case (Some c)
  with assms show ?thesis
    by (simp add: literal_ok_def wire_member_def modify_at_new_child node_at_new_child)
qed

section \<open>Every encode fragment adds the wire form of its value\<close>

lemma declares_stmts_append [simp]:
  "declares_stmts (cs @ ds) = declares_stmts cs @ declares_stmts ds"
  by (induction cs) simp_all

lemma assigns_stmts_append [simp]:
  "assigns_stmts (cs @ ds) = assigns_stmts cs @ assigns_stmts ds"
  by (induction cs) simp_all

text \<open>The fragments assign only to variables that they declare themselves.\<close>

lemma assigns_ToEtree_stmts:
  "set (assigns_stmts (fst (ToEtree_stmts gen p element resultvar errvar s))) \<subseteq>
   set (declares_stmts (fst (ToEtree_stmts gen p element resultvar errvar s)))"
  and assigns_structParam_ToEtree_range_stmts:
  "set (assigns_stmts (fst (structParam_ToEtree_range_stmts gen ps StructVar resultvar errvar s))) \<subseteq>
   set (declares_stmts (fst (structParam_ToEtree_range_stmts gen ps StructVar resultvar errvar s)))"
proof (induction gen p element resultvar errvar s and gen ps StructVar resultvar errvar s
    rule: ToEtree_stmts_structParam_ToEtree_range_stmts.induct)
  case (1 gen name element resultvar errvar s)
  show ?case by (simp add: split_def Let_def)
next
  case (2 gen bitSize name ty unsigned element resultvar errvar s)
  show ?case by simp
next
  case (3 gen name ty params element resultvar errvar s)
  from "3.IH" [OF refl prod.collapse] show ?case
    by (auto simp: split_def Let_def)
next
  case (4 gen name ty object element resultvar errvar s)
  from "4.IH" [OF refl prod.collapse refl prod.collapse refl prod.collapse] show ?case
    by (auto simp: split_def Let_def)
next
  case (5 gen name ty element resultvar errvar s)
  show ?case by (simp add: split_def Let_def)
next
  case (6 gen name element resultvar errvar s)
  show ?case by (simp add: split_def Let_def)
next
  case (7 gen StructVar resultvar errvar s)
  show ?case by simp
next
  case (8 gen param params StructVar resultvar errvar s)
  note child = "8.IH" (1) [OF refl prod.collapse refl prod.collapse refl prod.collapse]
  note rest = "8.IH" (2) [OF refl prod.collapse refl prod.collapse refl prod.collapse
      refl prod.collapse]
  from child rest show ?case
    by (auto simp: split_def Let_def)
qed

text \<open>One member of a structure: the statements of one round of the struct template.\<close>

lemma member_stmts_run:
  assumes SV: "env StructVar = Some (ElementPtr q)"
    and rv: "env resultvar = Some (StructVal fields)"
    and node: "node_at q doc = Some n"
    and field: "map_of fields name = Some v"
    and name: "literal_ok name"
    and fresh: "distinct [StructVar, resultvar, MemberVar, TempValueVar, StructItemVar]"
  shows "exec_stmts
           [NL 3,
            NL 3, Define MemberVar (CreateElement (Ident StructVar) ''member''),
            NL 0,
            NL 3, Comment c1,
            NL 3, SetText (CreateElement (Ident MemberVar) ''name'') (StringLit name),
            NL 0,
            NL 3,
            NL 3, Define TempValueVar (CreateElement (Ident MemberVar) ''value''),
            NL 0,
            NL 3, Comment c2,
            NL 3, Define StructItemVar (Selector (Ident resultvar) name),
            NL 0,
            NL 3, Comment c3,
            NL 3] (env, doc) =
         Some (env(MemberVar \<mapsto> ElementPtr (q @ [length (Children n)]),
                   TempValueVar \<mapsto> ElementPtr (q @ [length (Children n), 1]),
                   StructItemVar \<mapsto> v),
               modify_at q (add_child
                 (Element ''member'' [] [Element ''name'' name [], Element ''value'' [] []])) doc)"
  using assms by (simp add: modify_at_new_child node_at_new_child)

lemma exec_stmts_NL: "exec_stmts (NL k # cs) st = exec_stmts cs st"
  by simp

lemma ToEtree_stmts_run:
  "env element = Some (ElementPtr q) \<Longrightarrow> env resultvar = Some v \<Longrightarrow> node_at q doc = Some n \<Longrightarrow>
   wire p v = Some x \<Longrightarrow> member_names_ok p \<Longrightarrow>
   distinct (element # resultvar #
     declares_stmts (fst (ToEtree_stmts gen p element resultvar errvar s))) \<Longrightarrow>
   \<exists>env'. exec_stmts (fst (ToEtree_stmts gen p element resultvar errvar s)) (env, doc) =
     Some (env', modify_at q (add_child x) doc)"
  and structParam_ToEtree_range_stmts_run:
  "env StructVar = Some (ElementPtr q) \<Longrightarrow> env resultvar = Some (StructVal fields) \<Longrightarrow>
   node_at q doc = Some n \<Longrightarrow> wire_members ps fields = Some xs \<Longrightarrow> member_names_ok_list ps \<Longrightarrow>
   distinct (StructVar # resultvar #
     declares_stmts (fst (structParam_ToEtree_range_stmts gen ps StructVar resultvar errvar s))) \<Longrightarrow>
   \<exists>env'. exec_stmts (fst (structParam_ToEtree_range_stmts gen ps StructVar resultvar errvar s))
       (env, doc) =
     Some (env', modify_at q (add_children xs) doc)"
proof (induction gen p element resultvar errvar s and gen ps StructVar resultvar errvar s
    arbitrary: env doc q n v x and env doc q n fields xs
    rule: ToEtree_stmts_structParam_ToEtree_range_stmts.induct)
  case (1 gen name element resultvar errvar s)
  from "1.prems"(4) obtain b where
    v: "v = BoolVal b" and x: "x = Element ''boolean'' (if b then ''1'' else ''0'') []"
    by (cases v) auto
  from "1.prems"(6) have fresh:
    "fst (gen [''boolstr''] s) \<noteq> element" "fst (gen [''boolstr''] s) \<noteq> resultvar"
    by (auto simp: split_def Let_def)
  show ?case
    unfolding ToEtree_stmts.simps split_def Let_def fst_conv x
    using "1.prems"(1) "1.prems"(2) [unfolded v] "1.prems"(3) fresh
    by (rule boolParam_stmts_run)
next
  case (2 gen bitSize name ty unsigned element resultvar errvar s)
  from "2.prems"(4) obtain i where v: "v = IntVal i" and x: "x = Element ''int'' (Itoa i) []"
    by (cases v) auto
  show ?case
    unfolding ToEtree_stmts.simps fst_conv x
    by (intro exI, rule intParam_stmts_run [OF "2.prems"(1) "2.prems"(2) [unfolded v] "2.prems"(3)])
next
  case (3 gen name ty params element resultvar errvar s)
  define StructVar where "StructVar = fst (gen [''struct''] s)"
  define members where "members =
    fst (structParam_ToEtree_range_stmts gen params StructVar resultvar errvar (snd (gen [''struct''] s)))"
  define block where "block =
      [NL 2, Define StructVar (CreateElement (Ident element) ''struct''),
       NL 2, Comment '' iterate over struct members'',
       NL 2]"
  have prog: "fst (ToEtree_stmts gen (structParam name ty params) element resultvar errvar s) =
      block @ members @ [NL 1]"
    by (simp add: split_def Let_def StructVar_def members_def block_def)
  from "3.prems"(4) obtain fields ms where
    v: "v = StructVal fields" and ms: "wire_members params fields = Some ms" and
    x: "x = Element ''struct'' [] ms"
    by (cases v) (auto split: option.splits)
  from "3.prems"(6) have fresh:
    "StructVar \<noteq> element" "StructVar \<noteq> resultvar"
    "distinct (StructVar # resultvar # declares_stmts members)"
    unfolding prog block_def by auto
  let ?k = "length (Children n)"
  let ?env1 = "env(StructVar \<mapsto> ElementPtr (q @ [?k]))"
  let ?doc1 = "modify_at q (add_child (Element ''struct'' [] [])) doc"
  have head: "exec_stmts block (env, doc) = Some (?env1, ?doc1)"
    using "3.prems"(1,3) by (simp add: block_def)
  note range = "3.IH" [OF refl prod.collapse, folded StructVar_def, folded members_def]
  have "\<exists>env'. exec_stmts members (?env1, ?doc1) =
      Some (env', modify_at (q @ [?k]) (add_children ms) ?doc1)"
  proof (rule range)
    show "?env1 StructVar = Some (ElementPtr (q @ [?k]))"
      by simp
    show "?env1 resultvar = Some (StructVal fields)"
      using "3.prems"(2) fresh(2) by (simp add: v)
    show "node_at (q @ [?k]) ?doc1 = Some (Element ''struct'' [] [])"
      using "3.prems"(3) by (simp add: node_at_new_child)
    show "wire_members params fields = Some ms" by (rule ms)
    show "member_names_ok_list params" using "3.prems"(5) by simp
    show "distinct (StructVar # resultvar # declares_stmts members)"
      by (rule fresh(3))
  qed
  then obtain env' where
    "exec_stmts members (?env1, ?doc1) = Some (env', modify_at (q @ [?k]) (add_children ms) ?doc1)"
    by blast
  moreover have "modify_at (q @ [?k]) (add_children ms) ?doc1 = modify_at q (add_child x) doc"
    using modify_at_new_child [OF "3.prems"(3), of "[]"] by (simp add: x)
  ultimately show ?case
    unfolding prog using head
    by (simp add: exec_stmts_append exec_stmts_NL del: exec_stmts.simps(2))
next
  case (4 gen name ty object element resultvar errvar s)
  define Temp where "Temp = fst (gen [''array_data''] s)"
  define s1 where "s1 = snd (gen [''array_data''] s)"
  define TempItem where "TempItem = fst (gen [''item''] s1)"
  define s2 where "s2 = snd (gen [''item''] s1)"
  define TempValueVar where "TempValueVar = fst (gen [''value''] s2)"
  define s3 where "s3 = snd (gen [''value''] s2)"
  define item where "item = fst (ToEtree_stmts gen object TempValueVar TempItem errvar s3)"
  define pre where "pre =
    [NL 3, Define TempValueVar (CreateElement (Ident Temp) ''value''), NL 3]"
  define body where "body = pre @ item @ [NL 2]"
  have prog: "fst (ToEtree_stmts gen (sliceParam name ty object) element resultvar errvar s) =
      [Define Temp (CreateElement (CreateElement (Ident element) ''array'') ''data''),
       NL 2, ForRange TempItem (Ident resultvar) body,
       NL 1]"
    by (simp add: split_def Let_def Temp_def s1_def TempItem_def s2_def TempValueVar_def s3_def
        item_def body_def pre_def)
  note object = "4.IH" [OF refl prod.collapse refl prod.collapse refl prod.collapse,
      folded Temp_def s1_def, folded TempItem_def s2_def, folded TempValueVar_def s3_def,
      folded item_def]
  from "4.prems"(4) obtain vs xs where
    v: "v = SliceVal vs" and xs: "wire_values object vs = Some xs" and
    x: "x = Element ''array'' [] [Element ''data'' [] xs]"
    by (cases v) (auto split: option.splits)
  from "4.prems"(6) have fresh:
    "Temp \<noteq> element" "Temp \<noteq> resultvar" "Temp \<noteq> TempItem" "Temp \<noteq> TempValueVar"
    "Temp \<notin> set (declares_stmts item)" "TempItem \<noteq> resultvar"
    "distinct (TempValueVar # TempItem # declares_stmts item)"
    unfolding prog body_def pre_def by auto
  have Temp_item: "Temp \<notin> set (assigns_stmts item)"
    using fresh(5) assigns_ToEtree_stmts [of gen object TempValueVar TempItem errvar s3]
    by (auto simp: item_def)
  let ?k = "length (Children n)"
  let ?qd = "q @ [?k, 0]"
  have loop: "\<exists>env'. exec_range TempItem body vs (env2, doc2) =
      Some (env', modify_at ?qd (add_children xs) doc2)"
    if "env2 Temp = Some (ElementPtr ?qd)" and "node_at ?qd doc2 = Some nd"
      and "wire_values object vs = Some xs"
    for env2 doc2 nd vs xs
    using that
  proof (induction vs arbitrary: env2 doc2 nd xs)
    case Nil
    then show ?case by (simp add: add_children_Nil)
  next
    case (Cons w ws)
    from Cons.prems(3) obtain x1 xs' where
      x1: "wire object w = Some x1" and xs': "wire_values object ws = Some xs'" and
      xs: "xs = Element ''value'' [] [x1] # xs'"
      by (auto split: option.splits)
    let ?j = "length (Children nd)"
    let ?env3 = "env2(TempItem \<mapsto> w, TempValueVar \<mapsto> ElementPtr (?qd @ [?j]))"
    let ?doc3 = "modify_at ?qd (add_child (Element ''value'' [] [])) doc2"
    have first: "exec_stmts pre (env2(TempItem \<mapsto> w), doc2) = Some (?env3, ?doc3)"
      using Cons.prems(1,2) fresh(3) by (simp add: pre_def)
    have "\<exists>env'. exec_stmts item (?env3, ?doc3) =
        Some (env', modify_at (?qd @ [?j]) (add_child x1) ?doc3)"
    proof (rule object)
      show "?env3 TempValueVar = Some (ElementPtr (?qd @ [?j]))" by simp
      show "?env3 TempItem = Some w" using fresh(7) by auto
      show "node_at (?qd @ [?j]) ?doc3 = Some (Element ''value'' [] [])"
        using node_at_new_child [OF Cons.prems(2), of "[]"] by simp
      show "wire object w = Some x1" by (rule x1)
      show "member_names_ok object" using "4.prems"(5) by simp
      show "distinct (TempValueVar # TempItem # declares_stmts item)"
        by (rule fresh(7))
    qed
    then obtain env4 where
      item: "exec_stmts item (?env3, ?doc3) = Some (env4, modify_at (?qd @ [?j]) (add_child x1) ?doc3)"
      by blast
    have doc4: "modify_at (?qd @ [?j]) (add_child x1) ?doc3 =
        modify_at ?qd (add_child (Element ''value'' [] [x1])) doc2"
      using modify_at_new_child [OF Cons.prems(2), of "[]"] by simp
    have "env4 Temp = ?env3 Temp"
      using exec_stmts_frame [OF item fresh(5) Temp_item] by simp
    then have env4: "env4 Temp = Some (ElementPtr ?qd)"
      using Cons.prems(1) fresh(3,4) by simp
    have round: "exec_stmts body (env2(TempItem \<mapsto> w), doc2) =
        Some (env4, modify_at ?qd (add_child (Element ''value'' [] [x1])) doc2)"
      unfolding body_def using first item doc4
      by (simp add: exec_stmts_append exec_stmts_NL del: exec_stmts.simps(2))
    let ?doc4 = "modify_at ?qd (add_child (Element ''value'' [] [x1])) doc2"
    have "\<exists>env'. exec_range TempItem body ws (env4, ?doc4) =
        Some (env', modify_at ?qd (add_children xs') ?doc4)"
    proof (rule Cons.IH)
      show "env4 Temp = Some (ElementPtr ?qd)" by (rule env4)
      show "node_at ?qd ?doc4 = Some (add_child (Element ''value'' [] [x1]) nd)"
        using Cons.prems(2) by (simp add: node_at_modify_at)
      show "wire_values object ws = Some xs'" by (rule xs')
    qed
    then show ?case
      using round add_children_add_child [OF Cons.prems(2)] by (auto simp: xs)
  qed
  let ?env1 = "env(Temp \<mapsto> ElementPtr ?qd)"
  let ?doc1 = "modify_at q (add_child (Element ''array'' [] [Element ''data'' [] []])) doc"
  have head: "exec (Define Temp (CreateElement (CreateElement (Ident element) ''array'') ''data''))
      (env, doc) = Some (?env1, ?doc1)"
    using "4.prems"(1,3) by (simp add: modify_at_new_child node_at_new_child)
  have "\<exists>env'. exec_range TempItem body vs (?env1, ?doc1) =
      Some (env', modify_at ?qd (add_children xs) ?doc1)"
  proof (rule loop)
    show "?env1 Temp = Some (ElementPtr ?qd)" by simp
    show "node_at ?qd ?doc1 = Some (Element ''data'' [] [])"
      using "4.prems"(3) by (simp add: node_at_new_child)
    show "wire_values object vs = Some xs" by (rule xs)
  qed
  moreover have "modify_at ?qd (add_children xs) ?doc1 = modify_at q (add_child x) doc"
    using "4.prems"(3) by (simp add: modify_at_new_child x)
  moreover have "?env1 resultvar = Some (SliceVal vs)"
    using "4.prems"(2) fresh(2) by (simp add: v)
  ultimately show ?case
    unfolding prog using head by auto
next
  case (5 gen name ty element resultvar errvar s)
  from "5.prems"(4) obtain description code where
    v: "v = ErrorVal description code" and
    x: "x = Element ''fault'' []
          [Element ''value'' []
            [Element ''struct'' []
              [wire_member ''faultCode''
                 (Element ''int'' (Itoa (case code of None \<Rightarrow> 500 | Some c \<Rightarrow> c)) []),
               wire_member ''faultString'' (Element ''string'' description [])]]]"
    by (cases v) auto
  from "5.prems"(6) have fresh: "distinct [element, resultvar,
      fst (gen [''fault''] (snd (gen [''code''] (snd (gen [''ok''] (snd (gen [''struct'']
        (snd (gen [''code''] s))))))))),
      fst (gen [''code''] (snd (gen [''ok''] (snd (gen [''struct''] (snd (gen [''code''] s))))))),
      fst (gen [''code''] s),
      fst (gen [''ok''] (snd (gen [''struct''] (snd (gen [''code''] s))))),
      fst (gen [''struct''] (snd (gen [''code''] s))),
      fst (gen [''member''] (snd (gen [''fault''] (snd (gen [''code''] (snd (gen [''ok'']
        (snd (gen [''struct''] (snd (gen [''code''] s))))))))))),
      fst (gen [''member''] (snd (gen [''member''] (snd (gen [''fault''] (snd (gen [''code'']
        (snd (gen [''ok''] (snd (gen [''struct''] (snd (gen [''code''] s)))))))))))))]"
    by (simp add: split_def Let_def)
  show ?case
    unfolding ToEtree_stmts.simps split_def Let_def fst_conv x
    using "5.prems"(1) "5.prems"(2) [unfolded v] "5.prems"(3) fresh
    by (rule errorParam_stmts_run)
next
  case (6 gen name element resultvar errvar s)
  from "6.prems"(4) obtain t where v: "v = StringVal t" and x: "x = Element ''string'' t []"
    by (cases v) auto
  show ?case
    unfolding ToEtree_stmts.simps split_def Let_def fst_conv x
    by (intro exI, rule stringParam_stmts_run [OF "6.prems"(1) "6.prems"(2) [unfolded v] "6.prems"(3)])
next
  case (7 gen StructVar resultvar errvar s)
  then show ?case by (simp add: add_children_Nil)
next
  case (8 gen param params StructVar resultvar errvar s)
  define MemberVar where "MemberVar = fst (gen [''member''] s)"
  define s1 where "s1 = snd (gen [''member''] s)"
  define TempValueVar where "TempValueVar = fst (gen [''value''] s1)"
  define s2 where "s2 = snd (gen [''value''] s1)"
  define StructItemVar where "StructItemVar = fst (gen [''struct_var''] s2)"
  define s3 where "s3 = snd (gen [''struct_var''] s2)"
  define val where "val = fst (ToEtree_stmts gen param TempValueVar StructItemVar errvar s3)"
  define s4 where "s4 = snd (ToEtree_stmts gen param TempValueVar StructItemVar errvar s3)"
  define rest where
    "rest = fst (structParam_ToEtree_range_stmts gen params StructVar resultvar errvar s4)"
  define block where "block =
      [NL 3,
       NL 3, Define MemberVar (CreateElement (Ident StructVar) ''member''),
       NL 0,
       NL 3, Comment '' first create \"name\" xml element with member name'',
       NL 3, SetText (CreateElement (Ident MemberVar) ''name'') (StringLit (Name param)),
       NL 0,
       NL 3,
       NL 3, Define TempValueVar (CreateElement (Ident MemberVar) ''value''),
       NL 0,
       NL 3, Comment '' make shortcut to struct member '',
       NL 3, Define StructItemVar (Selector (Ident resultvar) (Name param)),
       NL 0,
       NL 3, Comment '' set value'',
       NL 3]"
  have prog: "fst (structParam_ToEtree_range_stmts gen (param # params) StructVar resultvar errvar s) =
      block @ val @ [NL 2] @ rest"
    by (simp add: split_def Let_def MemberVar_def s1_def TempValueVar_def s2_def StructItemVar_def
        s3_def val_def s4_def rest_def block_def)
  note child = "8.IH" (1) [OF refl prod.collapse refl prod.collapse refl prod.collapse,
      folded MemberVar_def s1_def, folded TempValueVar_def s2_def, folded StructItemVar_def s3_def,
      folded val_def]
  note others = "8.IH" (2) [OF refl prod.collapse refl prod.collapse refl prod.collapse
      refl prod.collapse,
      folded MemberVar_def s1_def, folded TempValueVar_def s2_def, folded StructItemVar_def s3_def,
      folded s4_def, folded rest_def]
  from "8.prems"(4) obtain w x1 ms where
    w: "map_of fields (Name param) = Some w" and x1: "wire param w = Some x1" and
    ms: "wire_members params fields = Some ms" and xs: "xs = wire_member (Name param) x1 # ms"
    by (auto split: option.splits)
  from "8.prems"(5) have names:
    "literal_ok (Name param)" "member_names_ok param" "member_names_ok_list params"
    by simp_all
  from "8.prems"(6) have fresh:
    "distinct [StructVar, resultvar, MemberVar, TempValueVar, StructItemVar]"
    "distinct (TempValueVar # StructItemVar # declares_stmts val)"
    "distinct (StructVar # resultvar # declares_stmts rest)"
    "StructVar \<notin> set (declares_stmts val)" "resultvar \<notin> set (declares_stmts val)"
    unfolding prog block_def by auto
  have val_assigns: "StructVar \<notin> set (assigns_stmts val)" "resultvar \<notin> set (assigns_stmts val)"
    using fresh(4,5) assigns_ToEtree_stmts [of gen param TempValueVar StructItemVar errvar s3]
    by (auto simp: val_def)
  let ?k = "length (Children n)"
  let ?env1 = "env(MemberVar \<mapsto> ElementPtr (q @ [?k]),
      TempValueVar \<mapsto> ElementPtr (q @ [?k, 1]), StructItemVar \<mapsto> w)"
  let ?doc1 = "modify_at q (add_child
      (Element ''member'' [] [Element ''name'' (Name param) [], Element ''value'' [] []])) doc"
  have first: "exec_stmts block (env, doc) = Some (?env1, ?doc1)"
    unfolding block_def
    by (rule member_stmts_run [OF "8.prems"(1,2,3) w names(1) fresh(1)])
  have "\<exists>env'. exec_stmts val (?env1, ?doc1) =
      Some (env', modify_at (q @ [?k, 1]) (add_child x1) ?doc1)"
  proof (rule child)
    show "?env1 TempValueVar = Some (ElementPtr (q @ [?k, 1]))" using fresh(1) by simp
    show "?env1 StructItemVar = Some w" by simp
    show "node_at (q @ [?k, 1]) ?doc1 = Some (Element ''value'' [] [])"
      using "8.prems"(3) by (simp add: node_at_new_child)
    show "wire param w = Some x1" by (rule x1)
    show "member_names_ok param" by (rule names(2))
    show "distinct (TempValueVar # StructItemVar # declares_stmts val)"
      by (rule fresh(2))
  qed
  then obtain env2 where
    second: "exec_stmts val (?env1, ?doc1) = Some (env2, modify_at (q @ [?k, 1]) (add_child x1) ?doc1)"
    by blast
  have doc2: "modify_at (q @ [?k, 1]) (add_child x1) ?doc1 =
      modify_at q (add_child (wire_member (Name param) x1)) doc"
    using "8.prems"(3) by (simp add: modify_at_new_child wire_member_def)
  have env2: "env2 StructVar = Some (ElementPtr q)" "env2 resultvar = Some (StructVal fields)"
    using exec_stmts_frame [OF second fresh(4) val_assigns(1)]
      exec_stmts_frame [OF second fresh(5) val_assigns(2)] "8.prems"(1,2) fresh(1)
    by simp_all
  let ?doc2 = "modify_at q (add_child (wire_member (Name param) x1)) doc"
  have "\<exists>env'. exec_stmts rest (env2, ?doc2) = Some (env', modify_at q (add_children ms) ?doc2)"
  proof (rule others)
    show "env2 StructVar = Some (ElementPtr q)" by (rule env2(1))
    show "env2 resultvar = Some (StructVal fields)" by (rule env2(2))
    show "node_at q ?doc2 = Some (add_child (wire_member (Name param) x1) n)"
      using "8.prems"(3) by (simp add: node_at_modify_at)
    show "wire_members params fields = Some ms" by (rule ms)
    show "member_names_ok_list params" by (rule names(3))
    show "distinct (StructVar # resultvar # declares_stmts rest)" by (rule fresh(3))
  qed
  then show ?case
    unfolding prog
    using add_children_add_child [OF "8.prems"(3)] first second doc2
    by (auto simp: exec_stmts_append exec_stmts_NL xs simp del: exec_stmts.simps(2))
qed

section \<open>The encode fragments of booleans, failures and structures\<close>

text \<open>
  C7. Run with the result variable holding a boolean \<open>b\<close> and the target variable pointing to
  an element of the document, the encode fragment of a boolean node (the text that
  \<open>ToEtree\<close> returns, read as statements) appends to that element one child with the tag
  \<^verbatim>\<open>boolean\<close>, no children, and the text \<^verbatim>\<open>1\<close> when \<open>b\<close> is true and \<^verbatim>\<open>0\<close> when it is false, and
  changes nothing else in the document. The allocated name must differ from the two
  names passed in.
\<close>

theorem boolParam_ToEtree_renders:
  assumes "env element = Some (ElementPtr q)"
    and "env resultvar = Some (BoolVal b)"
    and "node_at q doc = Some n"
    and "distinct (element # resultvar #
           declares_stmts (fst (ToEtree_stmts gen (boolParam name) element resultvar errvar s)))"
  shows "print_stmts (fst (ToEtree_stmts gen (boolParam name) element resultvar errvar s)) =
           fst (ToEtree gen (boolParam name) element resultvar errvar s) \<and>
         (\<exists>env'. exec_stmts (fst (ToEtree_stmts gen (boolParam name) element resultvar errvar s))
              (env, doc) =
            Some (env', modify_at q
              (add_child (Element ''boolean'' (if b then ''1'' else ''0'') [])) doc))"
proof
  show "print_stmts (fst (ToEtree_stmts gen (boolParam name) element resultvar errvar s)) =
      fst (ToEtree gen (boolParam name) element resultvar errvar s)"
    using print_ToEtree_stmts [of gen "boolParam name" element resultvar errvar s] by blast
  have "wire (boolParam name) (BoolVal b) = Some (Element ''boolean'' (if b then ''1'' else ''0'') [])"
    by simp
  from ToEtree_stmts_run [OF assms(1,2,3) this _ assms(4)]
  show "\<exists>env'. exec_stmts (fst (ToEtree_stmts gen (boolParam name) element resultvar errvar s))
      (env, doc) =
    Some (env', modify_at q (add_child (Element ''boolean'' (if b then ''1'' else ''0'') [])) doc)"
    by simp
qed

theorem boolParam_ToEtree_renders_witness:
  "(\<exists>env'. exec_stmts (fst (ToEtree_stmts counter_names (boolParam ''ok'') ''el'' ''res'' ''err'' 0))
        ([''el'' \<mapsto> ElementPtr [0], ''res'' \<mapsto> BoolVal True],
         Element ''params'' [] [Element ''value'' [] []]) =
      Some (env', Element ''params'' [] [Element ''value'' [] [Element ''boolean'' ''1'' []]])) \<and>
   (\<exists>env'. exec_stmts (fst (ToEtree_stmts counter_names (boolParam ''ok'') ''el'' ''res'' ''err'' 0))
        ([''el'' \<mapsto> ElementPtr [0], ''res'' \<mapsto> BoolVal False],
         Element ''params'' [] [Element ''value'' [] []]) =
      Some (env', Element ''params'' [] [Element ''value'' [] [Element ''boolean'' ''0'' []]]))"
proof -
  let ?doc = "Element ''params'' [] [Element ''value'' [] []]"
  have node: "node_at [0] ?doc = Some (Element ''value'' [] [])"
    by simp
  have fresh: "distinct (''el'' # ''res'' #
      declares_stmts (fst (ToEtree_stmts counter_names (boolParam ''ok'') ''el'' ''res'' ''err'' 0)))"
    by simp
  have run: "\<exists>env'. exec_stmts
        (fst (ToEtree_stmts counter_names (boolParam ''ok'') ''el'' ''res'' ''err'' 0))
        ([''el'' \<mapsto> ElementPtr [0], ''res'' \<mapsto> BoolVal b], ?doc) =
      Some (env', Element ''params'' [] [Element ''value'' []
        [Element ''boolean'' (if b then ''1'' else ''0'') []]])" for b
  proof -
    have el: "[''el'' \<mapsto> ElementPtr [0], ''res'' \<mapsto> BoolVal b] ''el'' = Some (ElementPtr [0])"
      by simp
    have res: "[''el'' \<mapsto> ElementPtr [0], ''res'' \<mapsto> BoolVal b] ''res'' = Some (BoolVal b)"
      by simp
    have doc': "modify_at [0] (add_child (Element ''boolean'' (if b then ''1'' else ''0'') [])) ?doc =
        Element ''params'' [] [Element ''value'' [] [Element ''boolean'' (if b then ''1'' else ''0'') []]]"
      by simp
    from boolParam_ToEtree_renders [OF el res node fresh] show ?thesis
      unfolding doc' by (rule conjunct2)
  qed
  from run [of True] run [of False]
  show ?thesis by simp
qed

text \<open>
  C5. Run with the result variable holding a failure value and the target variable pointing
  to an element of the document, the encode fragment of the failure node appends to that
  element one \<^verbatim>\<open>fault\<close> child. The fault holds a \<^verbatim>\<open>value\<close> holding a \<^verbatim>\<open>struct\<close> with exactly two
  members, in this order: \<^verbatim>\<open>faultCode\<close>, whose value is an \<^verbatim>\<open>int\<close> with the decimal text of 500
  when the failure value has no code and of its code when it has one, and \<^verbatim>\<open>faultString\<close>,
  whose value is a \<^verbatim>\<open>string\<close> with the description of the failure value. The allocated
  names must differ from each other and from the two names passed in.
\<close>

theorem errorParam_ToEtree_fault:
  assumes "env element = Some (ElementPtr q)"
    and "env resultvar = Some (ErrorVal description code)"
    and "node_at q doc = Some n"
    and "distinct (element # resultvar #
           declares_stmts (fst (ToEtree_stmts gen (errorParam name ty) element resultvar errvar s)))"
  shows "print_stmts (fst (ToEtree_stmts gen (errorParam name ty) element resultvar errvar s)) =
           fst (ToEtree gen (errorParam name ty) element resultvar errvar s) \<and>
         (\<exists>env'. exec_stmts (fst (ToEtree_stmts gen (errorParam name ty) element resultvar errvar s))
              (env, doc) =
            Some (env', modify_at q (add_child
              (Element ''fault'' []
                [Element ''value'' []
                  [Element ''struct'' []
                    [Element ''member'' []
                       [Element ''name'' ''faultCode'' [],
                        Element ''value'' []
                          [Element ''int'' (Itoa (case code of None \<Rightarrow> 500 | Some c \<Rightarrow> c)) []]],
                     Element ''member'' []
                       [Element ''name'' ''faultString'' [],
                        Element ''value'' [] [Element ''string'' description []]]]]])) doc))"
proof
  show "print_stmts (fst (ToEtree_stmts gen (errorParam name ty) element resultvar errvar s)) =
      fst (ToEtree gen (errorParam name ty) element resultvar errvar s)"
    using print_ToEtree_stmts [of gen "errorParam name ty" element resultvar errvar s] by blast
  have "wire (errorParam name ty) (ErrorVal description code) =
      Some (Element ''fault'' []
        [Element ''value'' []
          [Element ''struct'' []
            [Element ''member'' []
               [Element ''name'' ''faultCode'' [],
                Element ''value'' []
                  [Element ''int'' (Itoa (case code of None \<Rightarrow> 500 | Some c \<Rightarrow> c)) []]],
             Element ''member'' []
               [Element ''name'' ''faultString'' [],
                Element ''value'' [] [Element ''string'' description []]]]]])"
    by (simp add: wire_member_def)
  from ToEtree_stmts_run [OF assms(1,2,3) this _ assms(4)]
  show "\<exists>env'. exec_stmts (fst (ToEtree_stmts gen (errorParam name ty) element resultvar errvar s))
      (env, doc) =
    Some (env', modify_at q (add_child
      (Element ''fault'' []
        [Element ''value'' []
          [Element ''struct'' []
            [Element ''member'' []
               [Element ''name'' ''faultCode'' [],
                Element ''value'' []
                  [Element ''int'' (Itoa (case code of None \<Rightarrow> 500 | Some c \<Rightarrow> c)) []]],
             Element ''member'' []
               [Element ''name'' ''faultString'' [],
                Element ''value'' [] [Element ''string'' description []]]]]])) doc)"
    by simp
qed

text \<open>
  The scenario of the spec: a failure described as \<^verbatim>\<open>not found\<close>, without a code, is rendered
  with \<^verbatim>\<open>faultCode\<close> 500 and \<^verbatim>\<open>faultString\<close> \<^verbatim>\<open>not found\<close>, in that order.
\<close>

theorem errorParam_ToEtree_fault_witness:
  "\<exists>env'. exec_stmts (fst (ToEtree_stmts counter_names (errorParam ''err'' ''error'') ''el'' ''res'' ''err'' 0))
       ([''el'' \<mapsto> ElementPtr [], ''res'' \<mapsto> ErrorVal ''not found'' None],
        Element ''methodResponse'' [] []) =
     Some (env', Element ''methodResponse'' []
       [Element ''fault'' []
         [Element ''value'' []
           [Element ''struct'' []
             [Element ''member'' []
                [Element ''name'' ''faultCode'' [],
                 Element ''value'' [] [Element ''int'' ''500'' []]],
              Element ''member'' []
                [Element ''name'' ''faultString'' [],
                 Element ''value'' [] [Element ''string'' ''not found'' []]]]]]])"
proof -
  let ?env = "[''el'' \<mapsto> ElementPtr [], ''res'' \<mapsto> ErrorVal ''not found'' None]"
  let ?doc = "Element ''methodResponse'' [] []"
  have el: "?env ''el'' = Some (ElementPtr [])"
    by simp
  have res: "?env ''res'' = Some (ErrorVal ''not found'' None)"
    by simp
  have node: "node_at [] ?doc = Some ?doc"
    by simp
  have fresh: "distinct (''el'' # ''res'' #
      declares_stmts (fst (ToEtree_stmts counter_names (errorParam ''err'' ''error'') ''el'' ''res'' ''err'' 0)))"
    by simp
  from errorParam_ToEtree_fault [OF el res node fresh] show ?thesis
    unfolding modify_at.simps add_child.simps append_Nil option.case Itoa_500
    by (rule conjunct2)
qed





lemma nat_digits_two_digits:
  "nat_digits 10 = ''10''" "nat_digits 11 = ''11''" "nat_digits 12 = ''12''"
  by (simp_all add: nat_digits.simps digit_char_def)

lemma nat_digits_two_digits_Suc [simp]:
  "nat_digits (Suc (Suc (Suc (Suc (Suc (Suc (Suc (Suc (Suc (Suc 0)))))))))) = ''10''"
  "nat_digits (Suc (Suc (Suc (Suc (Suc (Suc (Suc (Suc (Suc (Suc (Suc 0))))))))))) = ''11''"
  "nat_digits (Suc (Suc (Suc (Suc (Suc (Suc (Suc (Suc (Suc (Suc (Suc (Suc 0)))))))))))) = ''12''"
  using nat_digits_two_digits by (simp_all add: eval_nat_numeral)




end
